theory Spec2Isabelle
  imports Complex_Main "HOL-Library.Char_ord" "HOL-Library.List_Lexorder"
begin

section \<open>Python values used by the platform\<close>

text \<open>
  The backend passes untyped dictionaries and JSON documents around. A JSON document
  is modelled as a datatype; an object keeps its keys in insertion order, as a
  Python \<^verbatim>\<open>dict\<close> does. Floating-point numbers do not occur in the documents the
  modelled code inspects and are left out.
\<close>

datatype json =
    JNull
  | JBool bool
  | JInt int
  | JStr string
  | JList "json list"
  | JObj "(string \<times> json) list"

text \<open>
  Python exceptions. \<open>KeyError\<close> carries the missing key; the others carry the text
  that \<^verbatim>\<open>str(e)\<close> gives.
\<close>

datatype exn =
    TypeError string
  | KeyError string
  | AttributeError string
  | JSONDecodeError string
  | NotFound string
  | RedisConnectionError string
  | DatabaseError string
  | OSError string
  | Exception string

text \<open>
  \<^verbatim>\<open>str(e)\<close>. For a \<open>KeyError\<close> it is the \<^verbatim>\<open>repr\<close> of the key: the key between single
  quotes (the keys looked up by the modelled code are plain words, without quotes or
  backslashes of their own).
\<close>

fun str_exn :: "exn \<Rightarrow> string" where
  "str_exn (TypeError m) = m"
| "str_exn (KeyError k) = [CHR 0x27] @ k @ [CHR 0x27]"
| "str_exn (AttributeError m) = m"
| "str_exn (JSONDecodeError m) = m"
| "str_exn (NotFound m) = m"
| "str_exn (RedisConnectionError m) = m"
| "str_exn (DatabaseError m) = m"
| "str_exn (OSError m) = m"
| "str_exn (Exception m) = m"

text \<open>Sequencing of computations that may raise: the first exception wins.\<close>

definition bind :: "exn + 'a \<Rightarrow> ('a \<Rightarrow> exn + 'b) \<Rightarrow> exn + 'b" where
  "bind m f = (case m of Inl e \<Rightarrow> Inl e | Inr x \<Rightarrow> f x)"

text \<open>\<^verbatim>\<open>try: body except Exception as e: handler(e)\<close>\<close>

definition try_except :: "exn + 'a \<Rightarrow> (exn \<Rightarrow> exn + 'a) \<Rightarrow> exn + 'a" where
  "try_except body handler = (case body of Inl e \<Rightarrow> handler e | Inr x \<Rightarrow> Inr x)"

text \<open>
  A text whose content is only ever handed to \<^verbatim>\<open>json.loads\<close>: either the
  serialisation of a document, or some other text, on which \<^verbatim>\<open>json.loads\<close> raises
  a \<^verbatim>\<open>JSONDecodeError\<close>. The parser's message depends on where the text stops being
  JSON; it is kept beside the text instead of being computed.
\<close>

datatype jtext = Json_text json | Other_text string string

definition json_loads :: "jtext \<Rightarrow> exn + json" where
  "json_loads t = (case t of Json_text j \<Rightarrow> Inr j
                   | Other_text s msg \<Rightarrow> Inl (JSONDecodeError msg))"

definition json_dumps :: "json \<Rightarrow> jtext" where
  "json_dumps j = Json_text j"

text \<open>Truthiness of a value in a Python condition.\<close>

fun truthy :: "json \<Rightarrow> bool" where
  "truthy JNull = False"
| "truthy (JBool b) = b"
| "truthy (JInt n) = (n \<noteq> 0)"
| "truthy (JStr s) = (s \<noteq> [])"
| "truthy (JList xs) = (xs \<noteq> [])"
| "truthy (JObj kvs) = (kvs \<noteq> [])"

text \<open>\<^verbatim>\<open>needle in haystack\<close> on strings: a contiguous occurrence.\<close>

fun contains :: "string \<Rightarrow> string \<Rightarrow> bool" where
  "contains needle [] = (needle = [])"
| "contains needle (c # cs) = (take (length needle) (c # cs) = needle \<or> contains needle cs)"

text \<open>\<^verbatim>\<open>k in v\<close>, \<^verbatim>\<open>v[k]\<close> and \<^verbatim>\<open>v.get(k, default)\<close> for a string key.\<close>

definition py_in :: "string \<Rightarrow> json \<Rightarrow> exn + bool" where
  "py_in k v = (case v of
       JObj kvs \<Rightarrow> Inr (k \<in> set (map fst kvs))
     | JStr s \<Rightarrow> Inr (contains k s)
     | JList xs \<Rightarrow> Inr (JStr k \<in> set xs)
     | _ \<Rightarrow> Inl (TypeError ''argument is not iterable''))"

definition py_index :: "json \<Rightarrow> string \<Rightarrow> exn + json" where
  "py_index v k = (case v of
       JObj kvs \<Rightarrow> (case map_of kvs k of Some x \<Rightarrow> Inr x | None \<Rightarrow> Inl (KeyError k))
     | _ \<Rightarrow> Inl (TypeError ''indices must be integers''))"

definition py_get :: "json \<Rightarrow> string \<Rightarrow> json \<Rightarrow> exn + json" where
  "py_get v k dflt = (case v of
       JObj kvs \<Rightarrow> (case map_of kvs k of Some x \<Rightarrow> Inr x | None \<Rightarrow> Inr dflt)
     | _ \<Rightarrow> Inl (AttributeError ''object has no attribute get''))"

text \<open>\<^verbatim>\<open>d[k] = v\<close> on a dictionary: an existing key keeps its place.\<close>

fun dict_set :: "(string \<times> json) list \<Rightarrow> string \<Rightarrow> json \<Rightarrow> (string \<times> json) list" where
  "dict_set [] k v = [(k, v)]"
| "dict_set ((k', v') # kvs) k v =
     (if k' = k then (k, v) # kvs else (k', v') # dict_set kvs k v)"

subsection \<open>String operations\<close>

text \<open>
  \<^verbatim>\<open>s.replace(old, new)\<close> for a non-empty \<^verbatim>\<open>old\<close>: occurrences are replaced from
  the left, without overlap. (The code never calls it with an empty pattern; the
  model leaves the string unchanged there.)
\<close>

function str_replace :: "string \<Rightarrow> string \<Rightarrow> string \<Rightarrow> string" where
  "str_replace old new [] = []"
| "str_replace old new (c # cs) =
     (if old \<noteq> [] \<and> take (length old) (c # cs) = old
      then new @ str_replace old new (drop (length old) (c # cs))
      else c # str_replace old new cs)"
  by pat_completeness auto
termination
  by (relation "measure (\<lambda>(old, new, s). length s)") (auto simp: neq_Nil_conv)

definition is_space :: "char \<Rightarrow> bool" where
  "is_space c = (c \<in> set [CHR '' '', CHR 0x09, CHR 0x0A, CHR 0x0B, CHR 0x0C, CHR 0x0D])"

definition strip :: "string \<Rightarrow> string" where
  "strip s = rev (dropWhile is_space (rev (dropWhile is_space s)))"

text \<open>
  Texts are sequences of 8-bit characters, and the character classes below are the
  ASCII ones: on ASCII text they are what Python's \<^verbatim>\<open>\d\<close>, \<^verbatim>\<open>int\<close>, \<^verbatim>\<open>strip\<close> and
  \<^verbatim>\<open>lower\<close> use. Digits and letters outside ASCII, which Python also recognises,
  are not represented.
\<close>

definition is_digit :: "char \<Rightarrow> bool" where
  "is_digit c = (c \<in> set ''0123456789'')"

text \<open>\<^verbatim>\<open>re.search(r'(\d+)', s)\<close>: the first maximal run of decimal digits, if any.\<close>

definition search_digits :: "string \<Rightarrow> string option" where
  "search_digits s =
     (let run = takeWhile is_digit (dropWhile (\<lambda>c. \<not> is_digit c) s)
      in if run = [] then None else Some run)"

definition digit_val :: "char \<Rightarrow> nat" where
  "digit_val c = of_char c - 48"

text \<open>\<^verbatim>\<open>int(s)\<close> on a string of decimal digits.\<close>

definition int_of_digits :: "string \<Rightarrow> nat" where
  "int_of_digits ds = foldl (\<lambda>acc c. 10 * acc + digit_val c) 0 ds"

section \<open>Node.js version selection (docker\_manager.py)\<close>

text \<open>
  The three places that pick a Node.js base image read \<^verbatim>\<open>engines.node\<close> from the
  parsed \<^verbatim>\<open>package.json\<close> in the same way:
  \<^verbatim>\<open>if 'engines' in pkg_data and 'node' in pkg_data['engines']:
      node_req = pkg_data['engines']['node']\<close>
\<close>

definition declared_node_req :: "json \<Rightarrow> exn + json option" where
  "declared_node_req pkg_data =
     bind (py_in ''engines'' pkg_data) (\<lambda>has_engines.
       if \<not> has_engines then Inr None
       else bind (py_index pkg_data ''engines'') (\<lambda>engines.
         bind (py_in ''node'' engines) (\<lambda>has_node.
           if \<not> has_node then Inr None
           else bind (py_index engines ''node'') (\<lambda>node_req. Inr (Some node_req)))))"

text \<open>
  \<^verbatim>\<open>cleaned = node_req.replace('^', '').replace('~', '').replace('>=', '')
                   .replace('>', '').replace('=', '').strip()\<close>
\<close>

definition clean_node_req :: "string \<Rightarrow> string" where
  "clean_node_req node_req =
     strip (str_replace ''='' [] (str_replace ''>'' [] (str_replace ''>='' []
       (str_replace ''~'' [] (str_replace ''^'' [] node_req)))))"

text \<open>
  \<^verbatim>\<open>match = re.search(r'(\d+)', cleaned)\<close> and, on a match,
  \<^verbatim>\<open>required_version = int(match.group(1))\<close>. A requirement that is not a string
  has no \<^verbatim>\<open>replace\<close> method.
\<close>

definition required_version :: "json \<Rightarrow> exn + nat option" where
  "required_version node_req = (case node_req of
       JStr s \<Rightarrow> Inr (map_option int_of_digits (search_digits (clean_node_req s)))
     | _ \<Rightarrow> Inl (AttributeError ''object has no attribute replace''))"

text \<open>The snapping of \<^verbatim>\<open>deploy_static_site\<close> (lines 70--79).\<close>

definition snap_static :: "nat \<Rightarrow> string" where
  "snap_static required =
     (if required \<ge> 22 then ''22''
      else if required \<ge> 20 then ''20''
      else if required \<ge> 18 then ''18''
      else if required \<ge> 16 then ''16''
      else ''18'')"

text \<open>
  The snapping of \<^verbatim>\<open>_create_nodejs_dockerfile\<close> (lines 1167--1172) and of
  \<^verbatim>\<open>_deploy_nodejs_dev\<close> (lines 1256--1261), which are the same text.
\<close>

definition snap_service :: "nat \<Rightarrow> string" where
  "snap_service required =
     (if required \<ge> 20 then ''20''
      else if required \<ge> 18 then ''18''
      else ''16'')"

text \<open>
  The version computed from a parsed \<^verbatim>\<open>package.json\<close>, starting from the path's
  default; an exception leaves the computation.
\<close>

definition select_node_version :: "(nat \<Rightarrow> string) \<Rightarrow> string \<Rightarrow> json \<Rightarrow> exn + string" where
  "select_node_version snap dflt pkg_data =
     bind (declared_node_req pkg_data) (\<lambda>decl.
       case decl of
         None \<Rightarrow> Inr dflt
       | Some node_req \<Rightarrow>
           bind (required_version node_req) (\<lambda>m.
             case m of None \<Rightarrow> Inr dflt | Some required \<Rightarrow> Inr (snap required)))"

text \<open>
  \<^verbatim>\<open>deploy_static_site\<close>: default \<^verbatim>\<open>'22'\<close>; without a \<^verbatim>\<open>package.json\<close> nothing is
  read; every exception of the detection is caught and leaves the default.
  The argument is the file's content, \<open>None\<close> when the file does not exist.
\<close>

definition deploy_static_site_node_version :: "jtext option \<Rightarrow> string" where
  "deploy_static_site_node_version package_json = (case package_json of
       None \<Rightarrow> ''22''
     | Some t \<Rightarrow>
        (case bind (json_loads t) (select_node_version snap_static ''22'') of
           Inl e \<Rightarrow> ''22''
         | Inr v \<Rightarrow> v))"

text \<open>
  \<^verbatim>\<open>_create_nodejs_dockerfile\<close>: default \<^verbatim>\<open>'18'\<close>; the detection sits in
  \<^verbatim>\<open>try: ... except: pass\<close>, and \<^verbatim>\<open>node_version\<close> is assigned last, so an
  exception leaves the default.
\<close>

definition create_nodejs_dockerfile_node_version :: "jtext option \<Rightarrow> string" where
  "create_nodejs_dockerfile_node_version package_json = (case package_json of
       None \<Rightarrow> ''18''
     | Some t \<Rightarrow>
        (case bind (json_loads t) (select_node_version snap_service ''18'') of
           Inl e \<Rightarrow> ''18''
         | Inr v \<Rightarrow> v))"

text \<open>
  \<^verbatim>\<open>_deploy_nodejs_dev\<close>: default \<^verbatim>\<open>'20'\<close>; a missing \<^verbatim>\<open>package.json\<close> or a missing
  \<^verbatim>\<open>dev\<close> script raises, and so does every exception of the detection (the
  function's handler logs and re-raises). Before the detection the dev command is read,
  \<^verbatim>\<open>dev_command = pkg_data['scripts']['dev']\<close> (line 1245), which raises when
  \<^verbatim>\<open>scripts\<close> is a string or a list that contains \<^verbatim>\<open>dev\<close>.
\<close>

definition deploy_nodejs_dev_node_version :: "jtext option \<Rightarrow> exn + string" where
  "deploy_nodejs_dev_node_version package_json = (case package_json of
       None \<Rightarrow> Inl (Exception ''package.json not found for dev mode deployment'')
     | Some t \<Rightarrow>
        bind (json_loads t) (\<lambda>pkg_data.
          bind (py_in ''scripts'' pkg_data) (\<lambda>has_scripts.
            bind (if has_scripts
                  then bind (py_index pkg_data ''scripts'') (py_in ''dev'')
                  else Inr False) (\<lambda>has_dev.
              if \<not> has_dev then Inl (Exception ''No 'dev' script found in package.json'')
              else
                bind (bind (py_index pkg_data ''scripts'') (\<lambda>scripts. py_index scripts ''dev''))
                  (\<lambda>dev_command. select_node_version snap_service ''20'' pkg_data)))))"

text \<open>A \<^verbatim>\<open>package.json\<close> that declares \<^verbatim>\<open>engines.node\<close> and a \<^verbatim>\<open>dev\<close> script.\<close>

definition pkg_with_engine :: "string \<Rightarrow> jtext" where
  "pkg_with_engine req =
     Json_text (JObj [(''scripts'', JObj [(''dev'', JStr ''vite'')]),
                      (''engines'', JObj [(''node'', JStr req)])])"

section \<open>Container run specifications (docker\_manager.py)\<close>

text \<open>
  The keyword arguments of the four \<^verbatim>\<open>self.client.containers.run(...)\<close> calls. An
  argument a call does not pass is \<open>None\<close>: the engine then applies no limit.
  The port, the environment and the volumes are computed before the call and are
  arguments here.
\<close>

record run_kwargs =
  rk_ports :: string
  rk_name :: string
  rk_restart_policy :: string
  rk_environment :: "(string \<times> string) list"
  rk_volumes :: "(string \<times> string) list"
  rk_mem_limit :: "string option"
  rk_cpu_period :: "int option"
  rk_cpu_quota :: "int option"
  rk_labels :: "(string \<times> string) list"

text \<open>\<^verbatim>\<open>os.getenv(name, default)\<close>\<close>

definition getenv :: "(string \<rightharpoonup> string) \<Rightarrow> string \<Rightarrow> string \<Rightarrow> string" where
  "getenv environ name dflt = (case environ name of Some v \<Rightarrow> v | None \<Rightarrow> dflt)"

text \<open>\<^verbatim>\<open>deploy_static_site\<close>, lines 338--351.\<close>

definition static_site_run_kwargs :: "string \<Rightarrow> (string \<times> string) list \<Rightarrow> run_kwargs" where
  "static_site_run_kwargs deployment_id volumes =
     \<lparr> rk_ports = ''80/tcp'',
       rk_name = ''deploy-'' @ deployment_id,
       rk_restart_policy = ''unless-stopped'',
       rk_environment = [],
       rk_volumes = volumes,
       rk_mem_limit = None,
       rk_cpu_period = None,
       rk_cpu_quota = None,
       rk_labels = [(''app'', ''deployment-platform''), (''type'', ''static''),
                    (''deployment_id'', deployment_id)] \<rparr>"

text \<open>
  \<^verbatim>\<open>deploy_web_service\<close>, lines 666--688. \<open>quota_of\<close> stands for Python's
  \<^verbatim>\<open>int(float(cpu_limit) * 100000)\<close> on the text of the environment variable.
\<close>

definition web_service_run_kwargs ::
  "(string \<rightharpoonup> string) \<Rightarrow> (string \<Rightarrow> int) \<Rightarrow> string \<Rightarrow> string \<Rightarrow> string \<Rightarrow>
   (string \<times> string) list \<Rightarrow> (string \<times> string) list \<Rightarrow> run_kwargs" where
  "web_service_run_kwargs environ quota_of dep_id port runtime env_vars volumes =
     (let mem_limit = getenv environ ''CONTAINER_MEMORY_LIMIT'' ''512m'';
          cpu_limit = getenv environ ''CONTAINER_CPU_LIMIT'' ''0.5''
      in \<lparr> rk_ports = port @ ''/tcp'',
            rk_name = ''web-'' @ dep_id,
            rk_restart_policy = ''unless-stopped'',
            rk_environment = env_vars,
            rk_volumes = volumes,
            rk_mem_limit = Some mem_limit,
            rk_cpu_period = Some 100000,
            rk_cpu_quota = Some (quota_of cpu_limit),
            rk_labels = [(''app'', ''deployment-platform''), (''type'', ''web-service''),
                         (''runtime'', runtime), (''deployment_id'', dep_id)] \<rparr>)"

text \<open>\<^verbatim>\<open>_deploy_nodejs_dev\<close>, lines 1314--1328.\<close>

definition nodejs_dev_run_kwargs :: "string \<Rightarrow> string \<Rightarrow> run_kwargs" where
  "nodejs_dev_run_kwargs dep_id port =
     \<lparr> rk_ports = port @ ''/tcp'',
       rk_name = ''dev-'' @ dep_id,
       rk_restart_policy = ''unless-stopped'',
       rk_environment = [(''PORT'', port), (''NODE_ENV'', ''development'')],
       rk_volumes = [],
       rk_mem_limit = None,
       rk_cpu_period = None,
       rk_cpu_quota = None,
       rk_labels = [(''app'', ''deployment-platform''), (''type'', ''web-service-dev''),
                    (''runtime'', ''nodejs''), (''deployment_id'', dep_id)] \<rparr>"

text \<open>\<^verbatim>\<open>deploy_java_service\<close>, lines 1494--1511.\<close>

definition java_service_run_kwargs :: "string \<Rightarrow> string \<Rightarrow> run_kwargs" where
  "java_service_run_kwargs dep_id port =
     \<lparr> rk_ports = port @ ''/tcp'',
       rk_name = ''java-'' @ dep_id,
       rk_restart_policy = ''unless-stopped'',
       rk_environment = [(''SERVER_PORT'', port), (''JAVA_OPTS'', ''-Xmx512m -Xms256m'')],
       rk_volumes = [],
       rk_mem_limit = None,
       rk_cpu_period = None,
       rk_cpu_quota = None,
       rk_labels = [(''app'', ''deployment-platform''), (''type'', ''web-service''),
                    (''runtime'', ''java''), (''deployment_id'', dep_id)] \<rparr>"

section \<open>Project detection (auto\_detector.py)\<close>

text \<open>
  What \<^verbatim>\<open>ProjectDetector\<close> reads of a project directory: the keys of
  \<^verbatim>\<open>self.files\<close> (the marker files that exist), and what \<^verbatim>\<open>read_text()\<close> gives for
  \<^verbatim>\<open>requirements.txt\<close> and for \<^verbatim>\<open>package.json\<close>: the content, or the exception it
  raises (a directory of that name, a file that cannot be opened or decoded). Both
  are read only when the name is among the keys.
\<close>

record project =
  files :: "string list"
  requirements_txt :: "exn + string"
  package_json :: "exn + jtext"

record detection =
  det_type :: string
  det_runtime :: string
  det_buildTool :: "string option"

definition lower_char :: "char \<Rightarrow> char" where
  "lower_char c =
     (if CHR ''A'' \<le> c \<and> c \<le> CHR ''Z'' then char_of (of_char c + (32::nat)) else c)"

text \<open>\<^verbatim>\<open>s.lower()\<close> on ASCII text; other characters are left as they are.\<close>

definition lower :: "string \<Rightarrow> string" where
  "lower s = map lower_char s"

text \<open>\<^verbatim>\<open>{**a, **b}\<close>: both operands must be mappings.\<close>

definition dict_merge :: "json \<Rightarrow> json \<Rightarrow> exn + json" where
  "dict_merge a b = (case (a, b) of
       (JObj xs, JObj ys) \<Rightarrow> Inr (JObj (foldl (\<lambda>d (k, v). dict_set d k v) xs ys))
     | _ \<Rightarrow> Inl (TypeError ''object is not a mapping''))"

text \<open>\<^verbatim>\<open>any(dep in dependencies for dep in names)\<close>: stops at the first hit.\<close>

fun any_in :: "string list \<Rightarrow> json \<Rightarrow> exn + bool" where
  "any_in [] dependencies = Inr False"
| "any_in (dep # deps) dependencies =
     bind (py_in dep dependencies) (\<lambda>hit. if hit then Inr True else any_in deps dependencies)"

definition python_frameworks :: "string list" where
  "python_frameworks = [''django'', ''flask'', ''fastapi'', ''uvicorn'', ''starlette'']"

definition frontend_deps :: "string list" where
  "frontend_deps = [''vite'', ''next'', ''gatsby'', ''vue'', ''react'', ''angular'', ''svelte'']"

definition server_deps :: "string list" where
  "server_deps = [''express'', ''koa'', ''fastify'', ''hapi'', ''nestjs'']"

definition mk_detection :: "string \<Rightarrow> string \<Rightarrow> string option \<Rightarrow> detection" where
  "mk_detection t r b = \<lparr> det_type = t, det_runtime = r, det_buildTool = b \<rparr>"

text \<open>The \<^verbatim>\<open>package.json\<close> branch of \<^verbatim>\<open>_detect_project_type\<close> (lines 78--93);
  \<open>None\<close> when none of its returns is taken.\<close>

definition detect_package_json :: "project \<Rightarrow> exn + detection option" where
  "detect_package_json p =
     bind (bind (package_json p) json_loads) (\<lambda>pkg_data.
     bind (py_get pkg_data ''scripts'' (JObj [])) (\<lambda>scripts.
     bind (py_get pkg_data ''dependencies'' (JObj [])) (\<lambda>deps.
     bind (py_get pkg_data ''devDependencies'' (JObj [])) (\<lambda>dev_deps.
     bind (dict_merge deps dev_deps) (\<lambda>dependencies.
     bind (any_in frontend_deps dependencies) (\<lambda>frontend.
     bind (if frontend then py_in ''build'' scripts else Inr False) (\<lambda>frontend_build.
       if frontend_build then Inr (Some (mk_detection ''static'' ''nodejs'' None))
       else
     bind (any_in server_deps dependencies) (\<lambda>server.
       if server then Inr (Some (mk_detection ''service'' ''nodejs'' None))
       else if ''server.js'' \<in> set (files p) \<or> ''index.js'' \<in> set (files p)
         then Inr (Some (mk_detection ''service'' ''nodejs'' None))
       else
     bind (py_in ''build'' scripts) (\<lambda>build.
       if build then Inr (Some (mk_detection ''static'' ''nodejs'' None))
       else Inr None)))))))))"

text \<open>
  \<^verbatim>\<open>_detect_project_type\<close> (lines 57--98). The first test reads \<^verbatim>\<open>requirements.txt\<close>
  when it exists; nothing catches an exception of that read, nor of the reading and
  parsing of \<^verbatim>\<open>package.json\<close>.
\<close>

definition detect_project_type :: "project \<Rightarrow> exn + detection" where
  "detect_project_type p =
     bind (if ''requirements.txt'' \<in> set (files p)
           then bind (requirements_txt p) (\<lambda>txt.
                  Inr (\<exists>fw \<in> set python_frameworks. contains fw (lower txt)))
           else Inr False) (\<lambda>python_framework.
      if python_framework
      then Inr (mk_detection ''service'' ''python'' None)
      else if ''app.py'' \<in> set (files p) \<or> ''main.py'' \<in> set (files p) \<or>
              ''manage.py'' \<in> set (files p)
      then Inr (mk_detection ''service'' ''python'' None)
      else if ''pom.xml'' \<in> set (files p)
      then Inr (mk_detection ''service'' ''java'' (Some ''maven''))
      else if ''build.gradle'' \<in> set (files p)
      then Inr (mk_detection ''service'' ''java'' (Some ''gradle''))
      else
        bind (if ''package.json'' \<in> set (files p) then detect_package_json p else Inr None)
          (\<lambda>r. case r of
             Some d \<Rightarrow> Inr d
           | None \<Rightarrow>
               if ''index.html'' \<in> set (files p)
               then Inr (mk_detection ''static'' ''static'' None)
               else Inr (mk_detection ''static'' ''static'' None)))"

subsection \<open>The detection rules as the specification words them\<close>

text \<open>
  The dependency names of a package: the keys of \<^verbatim>\<open>dependencies\<close> and of
  \<^verbatim>\<open>devDependencies\<close>; its scripts: the keys of \<^verbatim>\<open>scripts\<close>.
\<close>

definition obj_keys :: "json \<Rightarrow> string \<Rightarrow> string set" where
  "obj_keys doc field = (case doc of
       JObj kvs \<Rightarrow> (case map_of kvs field of Some (JObj xs) \<Rightarrow> set (map fst xs) | _ \<Rightarrow> {})
     | _ \<Rightarrow> {})"

definition pkg_doc :: "project \<Rightarrow> json" where
  "pkg_doc p = (case package_json p of Inr (Json_text j) \<Rightarrow> j | _ \<Rightarrow> JNull)"

definition requirements_text :: "project \<Rightarrow> string" where
  "requirements_text p = (case requirements_txt p of Inr txt \<Rightarrow> txt | Inl e \<Rightarrow> [])"

definition dependency_names :: "project \<Rightarrow> string set" where
  "dependency_names p = obj_keys (pkg_doc p) ''dependencies'' \<union> obj_keys (pkg_doc p) ''devDependencies''"

definition has_build_script :: "project \<Rightarrow> bool" where
  "has_build_script p = (''build'' \<in> obj_keys (pkg_doc p) ''scripts'')"

text \<open>The six rules of the specification, in order, first match winning.\<close>

definition detection_rules :: "project \<Rightarrow> detection" where
  "detection_rules p =
     (let has = (\<lambda>f. f \<in> set (files p)) in
      if has ''requirements.txt'' \<and>
         (\<exists>fw \<in> {''django'', ''flask'', ''fastapi'', ''uvicorn'', ''starlette''}.
            contains fw (lower (requirements_text p)))
        then mk_detection ''service'' ''python'' None
      else if has ''app.py'' \<or> has ''main.py'' \<or> has ''manage.py''
        then mk_detection ''service'' ''python'' None
      else if has ''pom.xml'' then mk_detection ''service'' ''java'' (Some ''maven'')
      else if has ''build.gradle'' then mk_detection ''service'' ''java'' (Some ''gradle'')
      else if has ''package.json'' \<and> has_build_script p \<and>
              dependency_names p \<inter>
                {''vite'', ''next'', ''gatsby'', ''vue'', ''react'', ''angular'', ''svelte''} \<noteq> {}
        then mk_detection ''static'' ''nodejs'' None
      else if has ''package.json'' \<and>
              (dependency_names p \<inter> {''express'', ''koa'', ''fastify'', ''hapi'', ''nestjs''} \<noteq> {}
               \<or> has ''server.js'' \<or> has ''index.js'')
        then mk_detection ''service'' ''nodejs'' None
      else if has ''package.json'' \<and> has_build_script p
        then mk_detection ''static'' ''nodejs'' None
      else if has ''index.html'' then mk_detection ''static'' ''static'' None
      else mk_detection ''static'' ''static'' None)"

text \<open>One of the rules 1 to 3 (Python, Maven, Gradle) matches.\<close>

definition early_rule :: "project \<Rightarrow> bool" where
  "early_rule p =
     (let has = (\<lambda>f. f \<in> set (files p)) in
      (has ''requirements.txt'' \<and>
         (\<exists>fw \<in> {''django'', ''flask'', ''fastapi'', ''uvicorn'', ''starlette''}.
            contains fw (lower (requirements_text p)))) \<or>
      has ''app.py'' \<or> has ''main.py'' \<or> has ''manage.py'' \<or>
      has ''pom.xml'' \<or> has ''build.gradle'')"

text \<open>
  The projects the rules are stated for. A \<^verbatim>\<open>requirements.txt\<close>, when there is one, can
  be read and is ASCII text. A \<^verbatim>\<open>package.json\<close>, when there is one, is a JSON object
  whose \<^verbatim>\<open>scripts\<close>, \<^verbatim>\<open>dependencies\<close> and \<^verbatim>\<open>devDependencies\<close>, where present, are
  objects.
\<close>

definition is_ascii :: "string \<Rightarrow> bool" where
  "is_ascii s = list_all (\<lambda>c. of_char c < (128::nat)) s"

definition readable_requirements :: "project \<Rightarrow> bool" where
  "readable_requirements p =
     (''requirements.txt'' \<in> set (files p) \<longrightarrow>
        (case requirements_txt p of Inr txt \<Rightarrow> is_ascii txt | Inl e \<Rightarrow> False))"

definition is_obj :: "json \<Rightarrow> bool" where
  "is_obj j = (case j of JObj kvs \<Rightarrow> True | _ \<Rightarrow> False)"

definition field_is_obj :: "(string \<times> json) list \<Rightarrow> string \<Rightarrow> bool" where
  "field_is_obj kvs field = (case map_of kvs field of None \<Rightarrow> True | Some v \<Rightarrow> is_obj v)"

definition well_formed_package :: "exn + jtext \<Rightarrow> bool" where
  "well_formed_package t = (case t of
       Inr (Json_text (JObj kvs)) \<Rightarrow>
         field_is_obj kvs ''scripts'' \<and> field_is_obj kvs ''dependencies'' \<and>
         field_is_obj kvs ''devDependencies''
     | _ \<Rightarrow> False)"

definition readable_package :: "project \<Rightarrow> bool" where
  "readable_package p =
     (''package.json'' \<in> set (files p) \<longrightarrow> well_formed_package (package_json p))"

subsection \<open>Four projects\<close>

text \<open>
  A Vite single-page application, and two projects whose \<^verbatim>\<open>package.json\<close> is not JSON
  (the property name lacks its quotes); the second also has an \<^verbatim>\<open>index.html\<close>. None
  of the three has a \<^verbatim>\<open>requirements.txt\<close>. The fourth is a Flask application that
  carries the same broken \<^verbatim>\<open>package.json\<close>.
\<close>

definition no_such_file :: "exn + 'a" where
  "no_such_file = Inl (OSError ''No such file or directory'')"

definition vite_project :: project where
  "vite_project =
     \<lparr> files = [''package.json''],
       requirements_txt = no_such_file,
       package_json = Inr (Json_text (JObj
         [(''scripts'', JObj [(''build'', JStr ''vite build'')]),
          (''devDependencies'', JObj [(''vite'', JStr ''^5'')])])) \<rparr>"

definition unquoted_name_message :: string where
  "unquoted_name_message =
     ''Expecting property name enclosed in double quotes: line 1 column 3 (char 2)''"

definition broken_package_project :: project where
  "broken_package_project =
     \<lparr> files = [''package.json''], requirements_txt = no_such_file,
       package_json = Inr (Other_text ''{ name: app'' unquoted_name_message) \<rparr>"

definition broken_package_site :: project where
  "broken_package_site =
     \<lparr> files = [''package.json'', ''index.html''], requirements_txt = no_such_file,
       package_json = Inr (Other_text ''{ name: app }'' unquoted_name_message) \<rparr>"

definition flask_project :: project where
  "flask_project =
     \<lparr> files = [''requirements.txt'', ''package.json''],
       requirements_txt = Inr ''Flask==3.0.0'',
       package_json = Inr (Other_text ''{ name: app }'' unquoted_name_message) \<rparr>"

section \<open>Rate limiting (rate\_limiter.py)\<close>

text \<open>
  \<^verbatim>\<open>RateLimiter.requests\<close> is a \<^verbatim>\<open>defaultdict(list)\<close> from keys to the times of the
  requests counted so far. Times are the seconds of \<^verbatim>\<open>time.time()\<close>, modelled as real
  numbers.
\<close>

type_synonym rate_limiter = "string \<Rightarrow> real list"

text \<open>\<^verbatim>\<open>self.default_limits\<close>: \<open>(max_requests, window)\<close> by limit type.\<close>

definition default_limits :: "string \<rightharpoonup> (nat \<times> real)" where
  "default_limits =
     [''deploy'' \<mapsto> (10, 3600), ''api'' \<mapsto> (100, 60), ''upload'' \<mapsto> (5, 3600)]"

text \<open>\<^verbatim>\<open>self.default_limits.get(limit_type, self.default_limits['api'])\<close>\<close>

definition limits_of :: "string \<Rightarrow> nat \<times> real" where
  "limits_of limit_type = (case default_limits limit_type of Some l \<Rightarrow> l | None \<Rightarrow> (100, 60))"

text \<open>The requests of a key that are still inside the window at time \<open>now\<close>.\<close>

definition clean_old :: "real \<Rightarrow> real \<Rightarrow> real list \<Rightarrow> real list" where
  "clean_old now window reqs = filter (\<lambda>req_time. now - req_time < window) reqs"

text \<open>\<^verbatim>\<open>RateLimiter.is_allowed\<close>: returns \<open>(is_allowed, remaining)\<close> and the new state.\<close>

definition is_allowed :: "rate_limiter \<Rightarrow> real \<Rightarrow> string \<Rightarrow> string \<Rightarrow> (bool \<times> int) \<times> rate_limiter" where
  "is_allowed requests now key limit_type =
     (let (max_requests, window) = limits_of limit_type;
          cleaned = clean_old now window (requests key);
          requests1 = requests(key := cleaned)
      in if length cleaned \<ge> max_requests
         then ((False, 0), requests1)
         else let requests2 = requests1(key := cleaned @ [now])
              in ((True, int max_requests - int (length (requests2 key))), requests2))"

subsection \<open>Responses\<close>

text \<open>
  A Flask response object: its status, its JSON body and its headers. A view returns
  either a response or a pair of a response and a status code.
\<close>

record response =
  status_code :: nat
  body :: json
  headers :: "(string \<times> string) list"

datatype view_result = Plain response | With_status response nat

text \<open>The status the client receives.\<close>

fun http_status :: "view_result \<Rightarrow> nat" where
  "http_status (Plain r) = status_code r"
| "http_status (With_status r code) = code"

fun response_of :: "view_result \<Rightarrow> response" where
  "response_of (Plain r) = r"
| "response_of (With_status r code) = r"

definition jsonify :: "json \<Rightarrow> response" where
  "jsonify j = \<lparr> status_code = 200, body = j,
                 headers = [(''Content-Type'', ''application/json'')] \<rparr>"

text \<open>\<^verbatim>\<open>str(n)\<close> for an integer.\<close>

definition digit_char :: "nat \<Rightarrow> char" where
  "digit_char d = char_of (48 + d)"

function str_nat :: "nat \<Rightarrow> string" where
  "str_nat n = (if n < 10 then [digit_char n] else str_nat (n div 10) @ [digit_char (n mod 10)])"
  by pat_completeness auto
termination
  by (relation "measure id") auto

definition str_int :: "int \<Rightarrow> string" where
  "str_int i = (if i < 0 then CHR ''-'' # str_nat (nat (- i)) else str_nat (nat i))"

text \<open>\<^verbatim>\<open>headers[name] = value\<close>\<close>

fun set_header :: "(string \<times> string) list \<Rightarrow> string \<Rightarrow> string \<Rightarrow> (string \<times> string) list" where
  "set_header [] k v = [(k, v)]"
| "set_header ((k', v') # hs) k v =
     (if k' = k then (k, v) # hs else (k', v') # set_header hs k v)"

definition add_rate_limit_headers :: "string \<Rightarrow> int \<Rightarrow> response \<Rightarrow> response" where
  "add_rate_limit_headers limit_type remaining r =
     r\<lparr> headers :=
          set_header (set_header (headers r) ''X-RateLimit-Remaining'' (str_int remaining))
            ''X-RateLimit-Limit''
            (str_nat (case default_limits limit_type of Some (m, w) \<Rightarrow> m | None \<Rightarrow> 100)) \<rparr>"

text \<open>
  The decorator \<^verbatim>\<open>rate_limit(limit_type)\<close> around a view. \<open>view\<close> is what the wrapped
  function returns when it is called; \<open>remote_addr\<close> is \<^verbatim>\<open>request.remote_addr\<close>.
  Every response object of the application has a \<^verbatim>\<open>headers\<close> attribute.
\<close>

definition client_key :: "string \<Rightarrow> string option \<Rightarrow> string" where
  "client_key limit_type remote_addr =
     limit_type @ '':'' @ (case remote_addr of None \<Rightarrow> ''unknown''
                           | Some a \<Rightarrow> if a = [] then ''unknown'' else a)"

definition rate_limit_exceeded :: "string \<Rightarrow> view_result" where
  "rate_limit_exceeded limit_type =
     With_status (jsonify (JObj [(''error'', JStr ''Rate limit exceeded''),
        (''message'', JStr ''Too many requests. Please try again later.''),
        (''limit_type'', JStr limit_type)])) 429"

definition rate_limit ::
  "string \<Rightarrow> view_result \<Rightarrow> rate_limiter \<Rightarrow> real \<Rightarrow> string option \<Rightarrow> view_result \<times> rate_limiter" where
  "rate_limit limit_type view requests now remote_addr =
     (let key = client_key limit_type remote_addr;
          ((allowed, remaining), requests') = is_allowed requests now key limit_type
      in if \<not> allowed then (rate_limit_exceeded limit_type, requests')
         else (case view of
                 With_status r code \<Rightarrow>
                   (With_status (add_rate_limit_headers limit_type remaining r) code, requests')
               | Plain r \<Rightarrow> (Plain (add_rate_limit_headers limit_type remaining r), requests')))"

text \<open>The value of a header of the response the client receives.\<close>

definition header :: "view_result \<Rightarrow> string \<Rightarrow> string option" where
  "header v name = map_of (headers (response_of v)) name"

text \<open>Five uploads of one client in the last minutes.\<close>

definition five_uploads :: rate_limiter where
  "five_uploads = (\<lambda>k. [])(''upload:10.0.0.7'' := [100, 200, 300, 400, 500])"

section \<open>The deployment store (db\_manager.py)\<close>

text \<open>
  A deployment as the application passes it around: a dictionary with the keys below.
  The first seventeen are the columns of table \<^verbatim>\<open>deployments\<close>; the last three occur
  only in the dictionaries built at submit time and are not stored. A key that is
  missing or \<^verbatim>\<open>None\<close> is \<open>None\<close>. The port is the text the engine reports.
\<close>

record deployment =
  d_id :: string
  d_projectName :: "string option"
  d_deploymentType :: "string option"
  d_status :: "string option"
  d_url :: "string option"
  d_directUrl :: "string option"
  d_timestamp :: string
  d_containerId :: "string option"
  d_port :: "string option"
  d_source :: "string option"
  d_repo :: "string option"
  d_branch :: "string option"
  d_config :: json
  d_environmentVariables :: json
  d_version :: int
  d_customDomain :: "string option"
  d_volumePath :: "string option"
  d_filename :: "string option"
  d_healthCheckPath :: "string option"
  d_autoRestart :: "bool option"

text \<open>A row of \<^verbatim>\<open>deployment_versions\<close>, without its deployment id.\<close>

record version_rec =
  v_version :: int
  v_containerId :: "string option"
  v_timestamp :: string
  v_config :: json
  v_status :: "string option"

text \<open>A row of \<^verbatim>\<open>metrics\<close>; instants are seconds, as real numbers.\<close>

record metric =
  m_timestamp :: real
  m_cpu :: real
  m_memory :: real
  m_networkRx :: real
  m_networkTx :: real

datatype db_dialect = PostgreSQL | SQLite

text \<open>
  The database: its dialect, its tables in insertion order, and whether it is out of
  order (\<open>db_fault\<close>: the message of the exception that every use of a connection
  then raises). Version and metric rows carry their deployment id.
\<close>

record database =
  db_type :: db_dialect
  db_fault :: "string option"
  deployments :: "deployment list"
  deployment_versions :: "(string \<times> version_rec) list"
  metrics :: "(string \<times> metric) list"

text \<open>\<^verbatim>\<open>with self.get_connection() as conn: cursor = conn.cursor()\<close> and the statements on it.\<close>

definition get_connection :: "database \<Rightarrow> exn + unit" where
  "get_connection db = (case db_fault db of Some m \<Rightarrow> Inl (DatabaseError m) | None \<Rightarrow> Inr ())"

text \<open>The columns that \<^verbatim>\<open>save_deployment\<close> writes.\<close>

definition stored_columns :: "deployment \<Rightarrow> deployment" where
  "stored_columns d = d\<lparr> d_filename := None, d_healthCheckPath := None, d_autoRestart := None \<rparr>"

text \<open>
  SQLite: \<^verbatim>\<open>INSERT OR REPLACE\<close> replaces the whole row. PostgreSQL:
  \<^verbatim>\<open>ON CONFLICT (id) DO UPDATE SET\<close> overwrites only status, container\_id, port, config,
  env\_vars and version of an existing row.
\<close>

definition conflict_update :: "deployment \<Rightarrow> deployment \<Rightarrow> deployment" where
  "conflict_update new old =
     old\<lparr> d_status := d_status new, d_containerId := d_containerId new, d_port := d_port new,
          d_config := d_config new, d_environmentVariables := d_environmentVariables new,
          d_version := d_version new \<rparr>"

definition upsert :: "db_dialect \<Rightarrow> deployment \<Rightarrow> deployment list \<Rightarrow> deployment list" where
  "upsert dialect d rows = (case dialect of
       SQLite \<Rightarrow> filter (\<lambda>r. d_id r \<noteq> d_id d) rows @ [stored_columns d]
     | PostgreSQL \<Rightarrow>
         if d_id d \<in> set (map d_id rows)
         then map (\<lambda>r. if d_id r = d_id d then conflict_update d r else r) rows
         else rows @ [stored_columns d])"

text \<open>
  Each method of \<^verbatim>\<open>DatabaseManager\<close> is a body inside \<^verbatim>\<open>try\<close> and a handler that logs
  and returns the failure value. A raised statement rolls the transaction back, so
  the tables are unchanged.
\<close>

definition save_deployment_body :: "database \<Rightarrow> deployment \<Rightarrow> exn + bool \<times> database" where
  "save_deployment_body db d =
     bind (get_connection db) (\<lambda>conn.
       Inr (True, db\<lparr> deployments := upsert (db_type db) d (deployments db) \<rparr>))"

definition save_deployment :: "database \<Rightarrow> deployment \<Rightarrow> exn + bool \<times> database" where
  "save_deployment db d = try_except (save_deployment_body db d) (\<lambda>e. Inr (False, db))"

definition get_deployment_body :: "database \<Rightarrow> string \<Rightarrow> exn + deployment option" where
  "get_deployment_body db deployment_id =
     bind (get_connection db) (\<lambda>conn.
       Inr (find (\<lambda>r. d_id r = deployment_id) (deployments db)))"

definition get_deployment :: "database \<Rightarrow> string \<Rightarrow> exn + deployment option" where
  "get_deployment db deployment_id =
     try_except (get_deployment_body db deployment_id) (\<lambda>e. Inr None)"

text \<open>\<^verbatim>\<open>SELECT * FROM deployments ORDER BY timestamp DESC\<close>\<close>

definition get_all_deployments_body :: "database \<Rightarrow> exn + deployment list" where
  "get_all_deployments_body db =
     bind (get_connection db) (\<lambda>conn. Inr (rev (sort_key d_timestamp (deployments db))))"

definition get_all_deployments :: "database \<Rightarrow> exn + deployment list" where
  "get_all_deployments db = try_except (get_all_deployments_body db) (\<lambda>e. Inr [])"

text \<open>
  \<^verbatim>\<open>DELETE FROM deployments WHERE id = ?\<close>; the result is \<^verbatim>\<open>cursor.rowcount > 0\<close>. The
  PostgreSQL schema declares \<^verbatim>\<open>ON DELETE CASCADE\<close> on the child tables; the SQLite
  schema does not.
\<close>

definition delete_deployment_body :: "database \<Rightarrow> string \<Rightarrow> exn + bool \<times> database" where
  "delete_deployment_body db deployment_id =
     bind (get_connection db) (\<lambda>conn.
       let db1 = db\<lparr> deployments := filter (\<lambda>r. d_id r \<noteq> deployment_id) (deployments db) \<rparr>;
           db2 = (case db_type db of
                    SQLite \<Rightarrow> db1
                  | PostgreSQL \<Rightarrow>
                      db1\<lparr> deployment_versions :=
                             filter (\<lambda>(i, v). i \<noteq> deployment_id) (deployment_versions db),
                           metrics := filter (\<lambda>(i, m). i \<noteq> deployment_id) (metrics db) \<rparr>)
       in Inr (deployment_id \<in> set (map d_id (deployments db)), db2))"

definition delete_deployment :: "database \<Rightarrow> string \<Rightarrow> exn + bool \<times> database" where
  "delete_deployment db deployment_id =
     try_except (delete_deployment_body db deployment_id) (\<lambda>e. Inr (False, db))"

text \<open>
  The foreign key of a child row is enforced by PostgreSQL only (SQLite leaves
  foreign keys off unless a pragma turns them on, and the code sets none).
\<close>

definition foreign_key_ok :: "database \<Rightarrow> string \<Rightarrow> exn + unit" where
  "foreign_key_ok db deployment_id =
     (if db_type db = PostgreSQL \<and> deployment_id \<notin> set (map d_id (deployments db))
      then Inl (DatabaseError ''violates foreign key constraint'') else Inr ())"

text \<open>\<^verbatim>\<open>INSERT INTO deployment_versions ...\<close>: a row is only ever added.\<close>

definition save_deployment_version_body ::
  "database \<Rightarrow> string \<Rightarrow> version_rec \<Rightarrow> exn + bool \<times> database" where
  "save_deployment_version_body db deployment_id version =
     bind (get_connection db) (\<lambda>conn.
     bind (foreign_key_ok db deployment_id) (\<lambda>ok.
       Inr (True, db\<lparr> deployment_versions :=
                         deployment_versions db @ [(deployment_id, version)] \<rparr>)))"

definition save_deployment_version ::
  "database \<Rightarrow> string \<Rightarrow> version_rec \<Rightarrow> exn + bool \<times> database" where
  "save_deployment_version db deployment_id version =
     try_except (save_deployment_version_body db deployment_id version) (\<lambda>e. Inr (False, db))"

text \<open>
  \<^verbatim>\<open>SELECT * FROM deployment_versions WHERE deployment_id = ? ORDER BY version DESC\<close>:
  highest version first. (SQL leaves the order of equal versions open; the model
  keeps them in insertion order.)
\<close>

definition get_deployment_versions_body :: "database \<Rightarrow> string \<Rightarrow> exn + version_rec list" where
  "get_deployment_versions_body db deployment_id =
     bind (get_connection db) (\<lambda>conn.
       Inr (sort_key (\<lambda>v. - v_version v)
              (map snd (filter (\<lambda>(i, v). i = deployment_id) (deployment_versions db)))))"

definition get_deployment_versions :: "database \<Rightarrow> string \<Rightarrow> exn + version_rec list" where
  "get_deployment_versions db deployment_id =
     try_except (get_deployment_versions_body db deployment_id) (\<lambda>e. Inr [])"

text \<open>Numbers of the engine's statistics; arithmetic on anything else raises.\<close>

definition py_num :: "json \<Rightarrow> exn + real" where
  "py_num v = (case v of
       JInt n \<Rightarrow> Inr (real_of_int n)
     | JBool b \<Rightarrow> Inr (if b then 1 else 0)
     | _ \<Rightarrow> Inl (TypeError ''unsupported operand type''))"

text \<open>\<^verbatim>\<open>save_metrics\<close>: the derivation of the sample (lines 502--513), then the insert.
  Floating-point rounding is not modelled.\<close>

definition derive_metric :: "json \<Rightarrow> real \<Rightarrow> exn + metric" where
  "derive_metric stats now =
     bind (py_get stats ''cpu_stats'' (JObj [])) (\<lambda>cpu_stats.
     bind (py_get cpu_stats ''cpu_usage'' (JObj [])) (\<lambda>cpu_usage.
     bind (py_get cpu_stats ''system_cpu_usage'' (JInt 1)) (\<lambda>system_cpu_j.
     bind (py_num system_cpu_j) (\<lambda>system_cpu.
     bind (if system_cpu > 0
           then bind (py_get cpu_usage ''total_usage'' (JInt 0)) (\<lambda>total_j.
                bind (py_num total_j) (\<lambda>total. Inr (total / system_cpu * 100)))
           else Inr 0) (\<lambda>cpu_percent.
     bind (py_get stats ''memory_stats'' (JObj [])) (\<lambda>memory_stats.
     bind (py_get memory_stats ''usage'' (JInt 0)) (\<lambda>usage_j.
     bind (py_num usage_j) (\<lambda>usage.
     bind (py_get stats ''networks'' (JObj [])) (\<lambda>networks.
     bind (py_get networks ''eth0'' (JObj [])) (\<lambda>network.
     bind (py_get network ''rx_bytes'' (JInt 0)) (\<lambda>rx_j.
     bind (py_num rx_j) (\<lambda>rx.
     bind (py_get network ''tx_bytes'' (JInt 0)) (\<lambda>tx_j.
     bind (py_num tx_j) (\<lambda>tx.
       Inr \<lparr> m_timestamp = now, m_cpu = cpu_percent, m_memory = usage / 1024 / 1024,
             m_networkRx = rx / 1024 / 1024, m_networkTx = tx / 1024 / 1024 \<rparr>))))))))))))))"

definition save_metrics_body :: "database \<Rightarrow> string \<Rightarrow> json \<Rightarrow> real \<Rightarrow> exn + bool \<times> database" where
  "save_metrics_body db deployment_id stats now =
     bind (derive_metric stats now) (\<lambda>m.
     bind (get_connection db) (\<lambda>conn.
     bind (foreign_key_ok db deployment_id) (\<lambda>ok.
       Inr (True, db\<lparr> metrics := metrics db @ [(deployment_id, m)] \<rparr>))))"

definition save_metrics :: "database \<Rightarrow> string \<Rightarrow> json \<Rightarrow> real \<Rightarrow> exn + bool \<times> database" where
  "save_metrics db deployment_id stats now =
     try_except (save_metrics_body db deployment_id stats now) (\<lambda>e. Inr (False, db))"

text \<open>
  \<^verbatim>\<open>get_metrics\<close>: the newest \<^verbatim>\<open>hours * 60\<close> samples; PostgreSQL also restricts them
  to the last \<^verbatim>\<open>hours\<close> hours and rejects a negative \<^verbatim>\<open>LIMIT\<close>, which SQLite reads as
  no limit.
\<close>

definition get_metrics_body :: "database \<Rightarrow> string \<Rightarrow> int \<Rightarrow> real \<Rightarrow> exn + metric list" where
  "get_metrics_body db deployment_id hours now =
     bind (get_connection db) (\<lambda>conn.
       let mine = map snd (filter (\<lambda>(i, m). i = deployment_id) (metrics db));
           newest_first = (\<lambda>ms. rev (sort_key m_timestamp ms))
       in case db_type db of
            PostgreSQL \<Rightarrow>
              if hours * 60 < 0 then Inl (DatabaseError ''LIMIT must not be negative'')
              else Inr (take (nat (hours * 60))
                     (newest_first (filter (\<lambda>m. m_timestamp m \<ge> now - 3600 * real_of_int hours) mine)))
          | SQLite \<Rightarrow>
              if hours * 60 < 0 then Inr (newest_first mine)
              else Inr (take (nat (hours * 60)) (newest_first mine)))"

definition get_metrics :: "database \<Rightarrow> string \<Rightarrow> int \<Rightarrow> real \<Rightarrow> exn + metric list" where
  "get_metrics db deployment_id hours now =
     try_except (get_metrics_body db deployment_id hours now) (\<lambda>e. Inr [])"

section \<open>The container engine (docker\_manager.py)\<close>

text \<open>
  What the control plane uses of the engine: the containers that exist, by id, with
  their status. The engine itself is taken to be reachable; the error the modelled
  calls can meet is a container that does not exist.
\<close>

record engine =
  containers :: "string \<rightharpoonup> string"

text \<open>
  \<^verbatim>\<open>DockerManager.stop_container\<close> stops and then removes the container and returns
  \<^verbatim>\<open>True\<close>; for an unknown id (or \<^verbatim>\<open>None\<close>) it returns \<^verbatim>\<open>False\<close>. It never raises.
\<close>

definition stop_container :: "engine \<Rightarrow> string option \<Rightarrow> bool \<times> engine" where
  "stop_container eng container_id = (case container_id of
       None \<Rightarrow> (False, eng)
     | Some c \<Rightarrow> (case containers eng c of
          None \<Rightarrow> (False, eng)
        | Some s \<Rightarrow> (True, eng\<lparr> containers := (containers eng)(c := None) \<rparr>)))"


section \<open>The Log Bus and the job queue (Redis)\<close>

text \<open>
  The Redis server: whether it can be reached, its lists by key, and the queue of
  jobs. The expiry of a key is not modelled.
\<close>

record job =
  job_dep_id :: string
  job_project_dir :: string
  job_deployment_type :: json
  job_config :: json

record redis =
  redis_up :: bool
  lists :: "string \<rightharpoonup> jtext list"
  jobs :: "job list"

definition redis_list :: "redis \<Rightarrow> string \<Rightarrow> jtext list" where
  "redis_list r key = (case lists r key of None \<Rightarrow> [] | Some xs \<Rightarrow> xs)"


text \<open>\<^verbatim>\<open>q.enqueue(run_deployment_task, args=(...), job_timeout='15m', result_ttl=86400)\<close>\<close>

definition enqueue :: "redis \<Rightarrow> job \<Rightarrow> exn + redis" where
  "enqueue r j =
     (if redis_up r then Inr (r\<lparr> jobs := jobs r @ [j] \<rparr>)
      else Inl (RedisConnectionError ''Error connecting to redis''))"


definition log_entry :: "string \<Rightarrow> string \<Rightarrow> jtext" where
  "log_entry type message = json_dumps (JObj [(''type'', JStr type), (''message'', JStr message)])"


section \<open>The deployment executor (tasks.py)\<close>





definition failure_payload :: "string \<Rightarrow> json" where
  "failure_payload error_msg =
     JObj [(''type'', JStr ''done''), (''success'', JBool False), (''error'', JStr error_msg)]"





section \<open>The control API (app.py)\<close>

text \<open>
  A JSON reply of a handler: the status code, the text of its \<^verbatim>\<open>error\<close> or
  \<^verbatim>\<open>message\<close> field, and the deployment in its body, if any.
\<close>

datatype reply = Reply nat string "deployment option"

fun reply_status :: "reply \<Rightarrow> nat" where
  "reply_status (Reply code text dep) = code"

text \<open>Truthiness of a value that is \<^verbatim>\<open>None\<close> or a string.\<close>

definition truthy_str :: "string option \<Rightarrow> bool" where
  "truthy_str s = (case s of None \<Rightarrow> False | Some t \<Rightarrow> t \<noteq> [])"

subsection \<open>Version history\<close>

text \<open>
  \<^verbatim>\<open>save_deployment_version(deployment)\<close> of app.py (lines 162--183), which calls the
  store's method of the same name. \<^verbatim>\<open>existing_versions\<close> is ordered highest version
  first, so \<^verbatim>\<open>existing_versions[-1]\<close> is the version with the lowest number.
\<close>

definition app_save_deployment_version ::
  "database \<Rightarrow> engine \<Rightarrow> deployment \<Rightarrow> exn + database \<times> engine" where
  "app_save_deployment_version db eng deployment =
     (let dep_id = d_id deployment in
      bind (get_deployment_versions db dep_id) (\<lambda>existing_versions.
        let next_version = int (length existing_versions) + 1;
            version = \<lparr> v_version = next_version,
                        v_containerId = d_containerId deployment,
                        v_timestamp = d_timestamp deployment,
                        v_config = d_config deployment,
                        v_status = Some ''previous'' \<rparr>
        in bind (save_deployment_version db dep_id version) (\<lambda>(saved, db1).
             if length existing_versions \<ge> 10
             then (let oldest_version = last existing_versions
                   in if truthy_str (v_containerId oldest_version)
                      then Inr (db1, snd (stop_container eng (v_containerId oldest_version)))
                      else Inr (db1, eng))
             else Inr (db1, eng))))"

subsection \<open>Rollback\<close>




subsection \<open>Submitting a deployment\<close>

text \<open>\<^verbatim>\<open>d[k] = v\<close> on a JSON value: only a dictionary supports it.\<close>

definition py_setitem :: "json \<Rightarrow> string \<Rightarrow> json \<Rightarrow> exn + json" where
  "py_setitem d k v = (case d of
       JObj kvs \<Rightarrow> Inr (JObj (dict_set kvs k v))
     | _ \<Rightarrow> Inl (TypeError ''object does not support item assignment''))"

text \<open>The text of a JSON value that is a string; the request fields kept in the
  typed columns of a deployment are taken to be strings or absent.\<close>

definition text_of :: "json \<Rightarrow> string option" where
  "text_of v = (case v of JStr s \<Rightarrow> Some s | _ \<Rightarrow> None)"

definition bool_of :: "json \<Rightarrow> bool option" where
  "bool_of v = (case v of JBool b \<Rightarrow> Some b | _ \<Rightarrow> None)"

text \<open>\<^verbatim>\<open>if config.get('persistentStorage'): config['volumeName'] = f"persistent_data_{dep_id}"\<close>\<close>

definition with_volume :: "json \<Rightarrow> string \<Rightarrow> exn + json \<times> string option" where
  "with_volume config dep_id =
     bind (py_get config ''persistentStorage'' JNull) (\<lambda>ps.
       if truthy ps
       then bind (py_setitem config ''volumeName'' (JStr (''persistent_data_'' @ dep_id)))
              (\<lambda>c. Inr (c, Some (''persistent_data_'' @ dep_id)))
       else bind (py_get config ''volumeName'' JNull) (\<lambda>vn. Inr (config, text_of vn)))"

text \<open>
  \<^verbatim>\<open>deploy_stream\<close>, lines 384--414: the configuration and the deployment record
  built from the request body \<open>data\<close>.
\<close>

definition deploy_stream_record ::
  "json \<Rightarrow> string \<Rightarrow> string \<Rightarrow> json \<Rightarrow> exn + json \<times> json \<times> deployment" where
  "deploy_stream_record data dep_id now branch =
     bind (py_index data ''deploymentType'') (\<lambda>deployment_type.
     bind (py_get data ''config'' (JObj [])) (\<lambda>config0.
     bind (py_get data ''environmentVariables'' (JList [])) (\<lambda>env_vars.
     bind (py_setitem config0 ''environmentVariables'' env_vars) (\<lambda>config1.
     bind (py_get data ''persistentStorage'' (JBool False)) (\<lambda>ps.
     bind (py_setitem config1 ''persistentStorage'' ps) (\<lambda>config2.
     bind (py_get data ''healthCheckPath'' (JStr ''/'')) (\<lambda>hc.
     bind (py_setitem config2 ''healthCheckPath'' hc) (\<lambda>config3.
     bind (py_get data ''autoRestart'' (JBool True)) (\<lambda>ar.
     bind (py_setitem config3 ''autoRestart'' ar) (\<lambda>config4.
     bind (with_volume config4 dep_id) (\<lambda>(config, volume_name).
     bind (py_index data ''projectName'') (\<lambda>project_name.
     bind (py_index data ''githubRepo'') (\<lambda>repo.
       Inr (deployment_type, config,
         \<lparr> d_id = dep_id,
           d_projectName = text_of project_name,
           d_deploymentType = text_of deployment_type,
           d_status = Some ''building'',
           d_url = Some (''/deploy/'' @ dep_id @ ''/''),
           d_directUrl = None,
           d_timestamp = now,
           d_containerId = None,
           d_port = None,
           d_source = Some ''github'',
           d_repo = text_of repo,
           d_branch = text_of branch,
           d_config = config,
           d_environmentVariables = env_vars,
           d_version = 1,
           d_customDomain = None,
           d_volumePath = volume_name,
           d_filename = None,
           d_healthCheckPath = text_of hc,
           d_autoRestart = bool_of ar \<rparr>))))))))))))))"





text \<open>
  Storing the record and queueing the job, common to both handlers:
  \<^verbatim>\<open>db_manager.save_deployment(deployment_record)\<close>,
  \<^verbatim>\<open>save_deployment_version(deployment_record)\<close>, \<^verbatim>\<open>q.enqueue(...)\<close>.
\<close>

definition store_record :: "database \<Rightarrow> engine \<Rightarrow> deployment \<Rightarrow> exn + database \<times> engine" where
  "store_record db eng deployment_record =
     bind (save_deployment db deployment_record) (\<lambda>(saved, db1).
       app_save_deployment_version db1 eng deployment_record)"

definition deployment_job :: "string \<Rightarrow> json \<Rightarrow> json \<Rightarrow> job" where
  "deployment_job dep_id deployment_type config =
     \<lparr> job_dep_id = dep_id, job_project_dir = ''./deployments/'' @ dep_id,
       job_deployment_type = deployment_type, job_config = config \<rparr>"



subsection \<open>Streaming the Log Bus to a client\<close>

text \<open>
  A server-sent event frame \<^verbatim>\<open>data: <text>\n\n\<close>, by its text. How a stream ended:
  after a \<^verbatim>\<open>done\<close> record, after the timeout frame, after another closing frame, by
  an exception that left the generator, or not yet (the polls observed so far did
  not end it).
\<close>

datatype frame = Data jtext

datatype stream_end = Done | Timeout | Ended | Failed exn | Still_open

text \<open>
  One poll \<^verbatim>\<open>redis_conn.lrange(f"logs:{id}", last_idx, -1)\<close> sees the list as it is at
  that moment (other processes append to it between polls), or Redis cannot be reached.
\<close>

datatype poll = Bus "jtext list" | Unreachable string

definition lrange_from :: "poll \<Rightarrow> nat \<Rightarrow> exn + jtext list" where
  "lrange_from p last_idx = (case p of
       Bus xs \<Rightarrow> Inr (drop last_idx xs)
     | Unreachable m \<Rightarrow> Inl (RedisConnectionError m))"

text \<open>\<^verbatim>\<open>log_json = json.loads(log_raw); log_json.get('type') == 'done'\<close>\<close>

definition is_done :: "jtext \<Rightarrow> exn + bool" where
  "is_done log_raw =
     bind (json_loads log_raw) (\<lambda>log_json.
       bind (py_get log_json ''type'' JNull) (\<lambda>t. Inr (t = JStr ''done'')))"

text \<open>
  The \<^verbatim>\<open>for log_raw in logs\<close> loop: the frames it yields and whether it returned on
  a \<^verbatim>\<open>done\<close> record. When reading the record raises, the handler of
  \<^verbatim>\<open>stream_logs_endpoint\<close> yields the frame once more (\<open>resend\<close>), the one of
  \<^verbatim>\<open>deploy_stream\<close> passes.
\<close>

fun forward_logs :: "bool \<Rightarrow> jtext list \<Rightarrow> frame list \<times> bool" where
  "forward_logs resend [] = ([], False)"
| "forward_logs resend (log_raw # logs) =
     (case is_done log_raw of
        Inr True \<Rightarrow> ([Data log_raw], True)
      | Inr False \<Rightarrow>
          (case forward_logs resend logs of (fs, finished) \<Rightarrow> (Data log_raw # fs, finished))
      | Inl e \<Rightarrow>
          (case forward_logs resend logs of (fs, finished) \<Rightarrow>
             ((if resend then [Data log_raw, Data log_raw] else [Data log_raw]) @ fs, finished)))"

definition timeout_frame :: frame where
  "timeout_frame = Data (json_dumps (JObj [(''type'', JStr ''error''),
                                           (''message'', JStr ''Timeout waiting for logs'')]))"

text \<open>
  The \<^verbatim>\<open>while True\<close> loop of both generators, over the polls it gets to make, from
  \<^verbatim>\<open>last_idx\<close> and \<^verbatim>\<open>empty_reads\<close>. Between two polls that found nothing it sleeps
  0.5 s.
\<close>

fun tail_logs :: "bool \<Rightarrow> poll list \<Rightarrow> nat \<Rightarrow> nat \<Rightarrow> frame list \<times> stream_end" where
  "tail_logs resend [] last_idx empty_reads = ([], Still_open)"
| "tail_logs resend (p # polls) last_idx empty_reads =
     (case lrange_from p last_idx of
        Inl e \<Rightarrow> ([], Failed e)
      | Inr logs \<Rightarrow>
          if logs \<noteq> [] then
            (case forward_logs resend logs of
               (fs, True) \<Rightarrow> (fs, Done)
             | (fs, False) \<Rightarrow>
                 (case tail_logs resend polls (last_idx + length logs) 0 of
                    (fs', e) \<Rightarrow> (fs @ fs', e)))
          else if empty_reads + 1 > 2400 then ([timeout_frame], Timeout)
          else tail_logs resend polls last_idx (empty_reads + 1))"

definition info_frame :: "string \<Rightarrow> frame" where
  "info_frame message = Data (log_entry ''info'' message)"

definition error_frame :: "string \<Rightarrow> frame" where
  "error_frame message = Data (log_entry ''error'' message)"

text \<open>\<^verbatim>\<open>stream_logs_endpoint\<close> (lines 300--343): the generator of the response.\<close>

definition stream_logs_endpoint :: "string \<Rightarrow> poll list \<Rightarrow> frame list \<times> stream_end" where
  "stream_logs_endpoint deployment_id polls =
     (case tail_logs True polls 0 0 of
        (fs, e) \<Rightarrow> (info_frame (''Attached to log stream for '' @ deployment_id) # fs, e))"

text \<open>
  The request checks of \<^verbatim>\<open>deploy_stream\<close> (lines 350--358): the reply 400, or
  nothing when the request passes.
\<close>

definition deploy_stream_check :: "bool \<Rightarrow> json \<Rightarrow> reply option" where
  "deploy_stream_check is_json data =
     (if \<not> is_json then Some (Reply 400 ''Request must be JSON'' None)
      else case (if \<not> truthy data then Inr True
                 else bind (py_get data ''projectName'' JNull) (\<lambda>pn.
                        if \<not> truthy pn then Inr True
                        else bind (py_get data ''githubRepo'' JNull) (\<lambda>gr. Inr (\<not> truthy gr)))) of
             Inl e \<Rightarrow> Some (Reply 400 (''Invalid request: '' @ str_exn e) None)
           | Inr True \<Rightarrow> Some (Reply 400 ''Project name and repository required'' None)
           | Inr False \<Rightarrow> None)"

definition clone_error_message :: "exn \<Rightarrow> string" where
  "clone_error_message e =
     (if contains ''authentication'' (lower (str_exn e))
      then ''Authentication failed. Check your GitHub token.'' else str_exn e)"

definition done_failed_frame :: "string \<Rightarrow> frame" where
  "done_failed_frame error_msg = Data (json_dumps (failure_payload error_msg))"

text \<open>
  The generator of \<^verbatim>\<open>deploy_stream\<close> (lines 362--462) for a request that passed the
  checks. \<open>clone\<close> is the exception of \<^verbatim>\<open>github_handler.clone_repo\<close>, if it raises;
  \<open>polls\<close> are the polls of the Log Bus the generator gets to make afterwards.
\<close>

definition deploy_stream ::
  "database \<Rightarrow> engine \<Rightarrow> redis \<Rightarrow> json \<Rightarrow> string \<Rightarrow> string \<Rightarrow> exn option \<Rightarrow> poll list \<Rightarrow>
   (frame list \<times> stream_end) \<times> database \<times> engine \<times> redis" where
  "deploy_stream db eng r data dep_id now clone polls =
     (let f0 = [info_frame (''Queuing deployment '' @ dep_id)];
          server_error = (\<lambda>fs e db' eng' r'.
             ((fs @ [error_frame (''Server Error: '' @ str_exn e)], Ended), db', eng', r'))
      in case py_get data ''branch'' (JStr ''main'') of
           Inl e \<Rightarrow> server_error f0 e db eng r
         | Inr branch \<Rightarrow>
            (let f1 = f0 @ [info_frame ''Cloning repository...''] in
             case clone of
               Some ce \<Rightarrow>
                 ((f1 @ [error_frame (clone_error_message ce),
                         done_failed_frame (clone_error_message ce)], Ended), db, eng, r)
             | None \<Rightarrow>
                (case deploy_stream_record data dep_id now branch of
                   Inl e \<Rightarrow> server_error f1 e db eng r
                 | Inr (deployment_type, config, deployment_record) \<Rightarrow>
                    (case store_record db eng deployment_record of
                       Inl e \<Rightarrow> server_error f1 e db eng r
                     | Inr (db1, eng1) \<Rightarrow>
                        (case enqueue r (deployment_job dep_id deployment_type config) of
                           Inl qe \<Rightarrow>
                             ((f1 @ [error_frame (''Failed to queue: '' @ str_exn qe)], Ended),
                              db1, eng1, r)
                         | Inr r1 \<Rightarrow>
                            (let f2 = f1 @ [info_frame (''Job queued. Position: '' @
                                              str_nat (length (jobs r1)))]
                             in case tail_logs False polls 0 0 of
                                  (fs, Failed e) \<Rightarrow> server_error (f2 @ fs) e db1 eng1 r1
                                | (fs, e) \<Rightarrow> ((f2 @ fs, e), db1, eng1, r1)))))))"

section \<open>Scenarios\<close>

text \<open>
  A deployment \<^verbatim>\<open>a1b2c3d4\<close> at version 3, whose history holds versions 1 to 3 with the
  containers \<^verbatim>\<open>c1\<close>, \<^verbatim>\<open>c2\<close> and \<^verbatim>\<open>c3\<close>; the engine still has all three containers and
  runs \<^verbatim>\<open>c3\<close>.
\<close>

definition shop :: deployment where
  "shop =
     \<lparr> d_id = ''a1b2c3d4'', d_projectName = Some ''shop'', d_deploymentType = Some ''service'',
       d_status = Some ''active'', d_url = Some ''/deploy/a1b2c3d4/'',
       d_directUrl = Some ''http://localhost:32770'', d_timestamp = ''2025-03-03T09:00:00'',
       d_containerId = Some ''c3'', d_port = Some ''32770'', d_source = Some ''github'',
       d_repo = Some ''https://github.com/acme/shop'', d_branch = Some ''main'',
       d_config = JObj [(''runtime'', JStr ''python'')], d_environmentVariables = JList [],
       d_version = 3, d_customDomain = None, d_volumePath = None, d_filename = None,
       d_healthCheckPath = None, d_autoRestart = None \<rparr>"

definition shop_version :: "int \<Rightarrow> string \<Rightarrow> string \<Rightarrow> version_rec" where
  "shop_version n container ts =
     \<lparr> v_version = n, v_containerId = Some container, v_timestamp = ts,
       v_config = JObj [(''runtime'', JStr ''python''), (''release'', JInt n)],
       v_status = Some ''previous'' \<rparr>"

definition shop_db :: database where
  "shop_db =
     \<lparr> db_type = SQLite, db_fault = None, deployments = [shop],
       deployment_versions =
         [(''a1b2c3d4'', shop_version 1 ''c1'' ''2025-01-01T09:00:00''),
          (''a1b2c3d4'', shop_version 2 ''c2'' ''2025-02-02T09:00:00''),
          (''a1b2c3d4'', shop_version 3 ''c3'' ''2025-03-03T09:00:00'')],
       metrics = [] \<rparr>"


text \<open>The same store when the database cannot be used.\<close>

definition faulty_db :: database where
  "faulty_db = shop_db\<lparr> db_fault := Some ''database is locked'' \<rparr>"

subsection \<open>What a consumer is to receive\<close>

text \<open>
  The records of a list up to and including the first one whose type is \<^verbatim>\<open>done\<close>, and
  the frames that forwarding a record produces.
\<close>

fun upto_done :: "jtext list \<Rightarrow> jtext list" where
  "upto_done [] = []"
| "upto_done (x # xs) = (if is_done x = Inr True then [x] else x # upto_done xs)"

definition forwarded :: "bool \<Rightarrow> jtext \<Rightarrow> frame list" where
  "forwarded resend x = (if resend \<and> isl (is_done x) then [Data x, Data x] else [Data x])"

definition has_done :: "jtext list \<Rightarrow> bool" where
  "has_done xs = (\<exists>x \<in> set xs. is_done x = Inr True)"

text \<open>The polls of a consumer that sees the first \<open>n\<close> records of \<open>bus\<close> at each poll,
  for the successive \<open>n\<close> of a list.\<close>

definition polls_of :: "jtext list \<Rightarrow> nat list \<Rightarrow> poll list" where
  "polls_of bus ns = map (\<lambda>n. Bus (take n bus)) ns"

text \<open>What the last of these polls saw: the records appended so far.\<close>

definition seen_by :: "jtext list \<Rightarrow> nat list \<Rightarrow> jtext list" where
  "seen_by bus ns = take (last (0 # ns)) bus"

definition done_record :: jtext where
  "done_record = json_dumps (failure_payload ''build failed'')"

text \<open>
  Two lists of a deployment that failed, with a record appended after the \<^verbatim>\<open>done\<close>
  record. The second holds a line that is not JSON.
\<close>

definition clean_log :: "jtext list" where
  "clean_log = [log_entry ''info'' ''Worker picked up job'', log_entry ''log'' ''Step 1/5'',
                done_record, log_entry ''log'' ''late'']"

definition build_log :: "jtext list" where
  "build_log = [log_entry ''info'' ''Worker picked up job'',
                Other_text ''Step 1/5'' ''Expecting value: line 1 column 1 (char 0)'',
                done_record, log_entry ''log'' ''late'']"

text \<open>Every record of the list can be read as a JSON object.\<close>

definition readable_records :: "jtext list \<Rightarrow> bool" where
  "readable_records xs = (\<forall>x \<in> set xs. \<not> isl (is_done x))"

subsection \<open>More scenarios\<close>





text \<open>The Log Bus after some entries were appended to one of its lists.\<close>

definition append_log :: "redis \<Rightarrow> string \<Rightarrow> jtext list \<Rightarrow> redis" where
  "append_log r key entries =
     (if entries = [] then r
      else r\<lparr> lists := (lists r)(key \<mapsto> redis_list r key @ entries) \<rparr>)"











section \<open>Results: Node.js version selection\<close>

lemma clean_ge_22: "clean_node_req ''>=22'' = ''22''"
  by (simp add: clean_node_req_def strip_def is_space_def)

lemma required_ge_22: "required_version (JStr ''>=22'') = Inr (Some 22)"
  by (simp add: required_version_def clean_ge_22 search_digits_def is_digit_def
      int_of_digits_def digit_val_def)

lemma declared_pkg_with_engine:
  "declared_node_req (JObj [(''scripts'', JObj [(''dev'', JStr ''vite'')]),
                            (''engines'', JObj [(''node'', JStr req)])]) = Inr (Some (JStr req))"
  by (simp add: declared_node_req_def bind_def py_in_def py_index_def)

text \<open>
  C4. The static-site build of a project declaring \<^verbatim>\<open>engines.node = ">=22"\<close> uses
  node 22, but the Node.js service path and the dev-mode path, whose snapping has no
  case for 22, both use node 20 for the same project.
\<close>

theorem node_version_ge_22_paths:
  "deploy_static_site_node_version (Some (pkg_with_engine ''>=22'')) = ''22'' \<and>
   create_nodejs_dockerfile_node_version (Some (pkg_with_engine ''>=22'')) = ''20'' \<and>
   deploy_nodejs_dev_node_version (Some (pkg_with_engine ''>=22'')) = Inr ''20''"
  by (simp add: deploy_static_site_node_version_def create_nodejs_dockerfile_node_version_def
      deploy_nodejs_dev_node_version_def pkg_with_engine_def json_loads_def bind_def
      select_node_version_def declared_pkg_with_engine required_ge_22
      snap_static_def snap_service_def py_in_def py_index_def)

section \<open>Results: project detection\<close>

lemma keys_dict_set: "fst ` set (dict_set d k v) = insert k (fst ` set d)"
  by (induction d k v rule: dict_set.induct) auto

lemma keys_foldl_dict_set:
  "fst ` set (foldl (\<lambda>d (k, v). dict_set d k v) xs ys) = fst ` set xs \<union> fst ` set ys"
proof (induction ys arbitrary: xs)
  case Nil
  then show ?case by simp
next
  case (Cons y ys)
  obtain k v where y: "y = (k, v)" by (cases y)
  show ?case by (simp add: y Cons.IH keys_dict_set)
qed

lemma any_in_obj: "any_in names (JObj kvs) = Inr (set names \<inter> fst ` set kvs \<noteq> {})"
  by (induction names) (auto simp: bind_def py_in_def)

lemma py_get_field_obj:
  "field_is_obj kvs field \<Longrightarrow>
   \<exists>xs. py_get (JObj kvs) field (JObj []) = Inr (JObj xs) \<and> obj_keys (JObj kvs) field = fst ` set xs"
  by (auto simp: field_is_obj_def py_get_def obj_keys_def is_obj_def split: option.splits json.splits)

lemma detect_package_json_readable:
  assumes "well_formed_package (package_json p)"
  shows "detect_package_json p = Inr
     (if has_build_script p \<and> dependency_names p \<inter> set frontend_deps \<noteq> {}
        then Some (mk_detection ''static'' ''nodejs'' None)
      else if dependency_names p \<inter> set server_deps \<noteq> {}
              \<or> ''server.js'' \<in> set (files p) \<or> ''index.js'' \<in> set (files p)
        then Some (mk_detection ''service'' ''nodejs'' None)
      else if has_build_script p then Some (mk_detection ''static'' ''nodejs'' None)
      else None)"
proof -
  from assms obtain kvs where t: "package_json p = Inr (Json_text (JObj kvs))"
    and fs: "field_is_obj kvs ''scripts''" and fd: "field_is_obj kvs ''dependencies''"
    and fv: "field_is_obj kvs ''devDependencies''"
    by (auto simp: well_formed_package_def split: sum.splits jtext.splits json.splits)
  from py_get_field_obj[OF fs] obtain ss where
    s: "py_get (JObj kvs) ''scripts'' (JObj []) = Inr (JObj ss)"
       "obj_keys (JObj kvs) ''scripts'' = fst ` set ss" by blast
  from py_get_field_obj[OF fd] obtain ds where
    d: "py_get (JObj kvs) ''dependencies'' (JObj []) = Inr (JObj ds)"
       "obj_keys (JObj kvs) ''dependencies'' = fst ` set ds" by blast
  from py_get_field_obj[OF fv] obtain vs where
    v: "py_get (JObj kvs) ''devDependencies'' (JObj []) = Inr (JObj vs)"
       "obj_keys (JObj kvs) ''devDependencies'' = fst ` set vs" by blast
  have doc: "pkg_doc p = JObj kvs" by (simp add: pkg_doc_def t)
  have dn: "dependency_names p = fst ` set ds \<union> fst ` set vs"
    by (simp add: dependency_names_def doc d v)
  have hb: "has_build_script p = (''build'' \<in> fst ` set ss)"
    by (simp add: has_build_script_def doc s)
  have inb: "py_in ''build'' (JObj ss) = Inr (''build'' \<in> fst ` set ss)"
    by (simp add: py_in_def)
  show ?thesis
    unfolding detect_package_json_def
    by (simp add: t json_loads_def bind_def s d v dict_merge_def any_in_obj
        keys_foldl_dict_set dn hb inb Int_commute)
qed

lemma fw_set: "set python_frameworks = {''django'', ''flask'', ''fastapi'', ''uvicorn'', ''starlette''}"
  by (simp add: python_frameworks_def)

lemma fe_set: "set frontend_deps = {''vite'', ''next'', ''gatsby'', ''vue'', ''react'', ''angular'', ''svelte''}"
  by (simp add: frontend_deps_def)

lemma sv_set: "set server_deps = {''express'', ''koa'', ''fastify'', ''hapi'', ''nestjs''}"
  by (simp add: server_deps_def)

text \<open>The first test of the detection, on a \<^verbatim>\<open>requirements.txt\<close> that can be read.\<close>

lemma requirements_test:
  assumes "readable_requirements p"
  shows "(if ''requirements.txt'' \<in> set (files p)
          then bind (requirements_txt p) (\<lambda>txt.
                 Inr (\<exists>fw \<in> set python_frameworks. contains fw (lower txt)))
          else Inr False) =
         Inr (''requirements.txt'' \<in> set (files p) \<and>
              (\<exists>fw \<in> {''django'', ''flask'', ''fastapi'', ''uvicorn'', ''starlette''}.
                 contains fw (lower (requirements_text p))))"
proof (cases "''requirements.txt'' \<in> set (files p)")
  case True
  with assms obtain content where "requirements_txt p = Inr content"
    by (auto simp: readable_requirements_def split: sum.splits)
  then show ?thesis
    unfolding fw_set by (simp add: True bind_def requirements_text_def)
next
  case False
  then show ?thesis by simp
qed

lemma rules_shape:
  "bind (Inr a) (\<lambda>a. if a then Inr x1 else if b then Inr x2 else if c then Inr x3
      else if d then Inr x4
      else bind (Inr (if e then Some y1 else if f then Some y2 else if g then Some y3 else None))
           (\<lambda>r. case r of Some v \<Rightarrow> Inr v | None \<Rightarrow> if h then Inr z else Inr z')) =
   Inr (if a then x1 else if b then x2 else if c then x3 else if d then x4
        else if e then y1 else if f then y2 else if g then y3 else if h then z else z')"
  by (simp add: bind_def)

lemma early_shape:
  "a \<or> b \<or> c \<or> d \<Longrightarrow>
   bind (Inr a) (\<lambda>a. if a then Inr x1 else if b then Inr x2 else if c then Inr x3
      else if d then Inr x4 else rest) =
   Inr (if a then x1 else if b then x2 else if c then x3 else if d then x4 else w)"
  by (auto simp: bind_def)

lemma late_shape:
  "\<not> (a \<or> b \<or> c \<or> d) \<Longrightarrow>
   bind (Inr a) (\<lambda>a. if a then Inr x1 else if b then Inr x2 else if c then Inr x3
      else if d then Inr x4 else bind (Inl e) rest) = Inl e"
  by (simp add: bind_def)

text \<open>
  C8 (amended). Take a project whose \<^verbatim>\<open>requirements.txt\<close>, if there is one, can be read
  and is ASCII text. If one of the rules 1 to 3 matches, or the \<^verbatim>\<open>package.json\<close>, if
  there is one, is a JSON object whose \<^verbatim>\<open>scripts\<close>, \<^verbatim>\<open>dependencies\<close> and
  \<^verbatim>\<open>devDependencies\<close> are objects where present, then \<^verbatim>\<open>_detect_project_type\<close> returns
  what the six rules of the specification give, applied in order with the first match
  winning. If none of the rules 1 to 3 matches and there is a \<^verbatim>\<open>package.json\<close> that is
  not valid JSON, \<^verbatim>\<open>_detect_project_type\<close> raises the \<^verbatim>\<open>JSONDecodeError\<close> of the parser.
\<close>

theorem detect_project_type_rules:
  "(readable_requirements p \<and> (early_rule p \<or> readable_package p) \<longrightarrow>
      detect_project_type p = Inr (detection_rules p)) \<and>
   (readable_requirements p \<and> \<not> early_rule p \<and> ''package.json'' \<in> set (files p) \<and>
    package_json p = Inr (Other_text s msg) \<longrightarrow>
      detect_project_type p = Inl (JSONDecodeError msg))"
proof (intro conjI impI)
  assume a: "readable_requirements p \<and> (early_rule p \<or> readable_package p)"
  show "detect_project_type p = Inr (detection_rules p)"
  proof (cases "early_rule p")
    case True
    then show ?thesis
      unfolding detect_project_type_def detection_rules_def Let_def early_rule_def
        requirements_test[OF conjunct1[OF a]]
      by (intro early_shape) blast
  next
    case False
    with a have "readable_package p" by simp
    then have pk: "(if ''package.json'' \<in> set (files p) then detect_package_json p else Inr None) = Inr
       (if ''package.json'' \<in> set (files p) \<and> has_build_script p \<and> dependency_names p \<inter> set frontend_deps \<noteq> {}
          then Some (mk_detection ''static'' ''nodejs'' None)
        else if ''package.json'' \<in> set (files p) \<and> (dependency_names p \<inter> set server_deps \<noteq> {}
                \<or> ''server.js'' \<in> set (files p) \<or> ''index.js'' \<in> set (files p))
          then Some (mk_detection ''service'' ''nodejs'' None)
        else if ''package.json'' \<in> set (files p) \<and> has_build_script p then Some (mk_detection ''static'' ''nodejs'' None)
        else None)"
      using detect_package_json_readable[of p] by (simp add: readable_package_def)
    show ?thesis
      unfolding detect_project_type_def detection_rules_def Let_def pk fe_set sv_set
        requirements_test[OF conjunct1[OF a]]
      by (rule rules_shape)
  qed
next
  assume b: "readable_requirements p \<and> \<not> early_rule p \<and> ''package.json'' \<in> set (files p) \<and>
    package_json p = Inr (Other_text s msg)"
  then have pj: "(if ''package.json'' \<in> set (files p) then detect_package_json p else Inr None)
      = bind (Inl (JSONDecodeError msg)) (\<lambda>r. Inr r)"
    by (simp add: detect_package_json_def json_loads_def bind_def)
  have pj': "(if ''package.json'' \<in> set (files p) then detect_package_json p else Inr None)
      = Inl (JSONDecodeError msg)"
    unfolding pj by (simp add: bind_def)
  from b have ne: "\<not> ((''requirements.txt'' \<in> set (files p) \<and>
         (\<exists>fw \<in> {''django'', ''flask'', ''fastapi'', ''uvicorn'', ''starlette''}.
            contains fw (lower (requirements_text p)))) \<or>
      (''app.py'' \<in> set (files p) \<or> ''main.py'' \<in> set (files p) \<or> ''manage.py'' \<in> set (files p)) \<or>
      ''pom.xml'' \<in> set (files p) \<or> ''build.gradle'' \<in> set (files p))"
    by (simp add: early_rule_def Let_def)
  show "detect_project_type p = Inl (JSONDecodeError msg)"
    unfolding detect_project_type_def requirements_test[OF conjunct1[OF b]] pj'
    by (rule late_shape[OF ne])
qed

lemma vite_project_fields:
  "files vite_project = [''package.json'']"
  "package_json vite_project = Inr (Json_text (JObj
         [(''scripts'', JObj [(''build'', JStr ''vite build'')]),
          (''devDependencies'', JObj [(''vite'', JStr ''^5'')])]))"
  by (simp_all add: vite_project_def)

lemma broken_package_site_fields:
  "files broken_package_site = [''package.json'', ''index.html'']"
  "package_json broken_package_site = Inr (Other_text ''{ name: app }'' unquoted_name_message)"
  by (simp_all add: broken_package_site_def)

lemma flask_project_facts:
  "readable_requirements flask_project"
  "early_rule flask_project"
  "detection_rules flask_project = mk_detection ''service'' ''python'' None"
  by code_simp+

theorem detect_project_type_rules_witness:
  "(readable_requirements vite_project \<and> readable_package vite_project \<and>
    detect_project_type vite_project = Inr (mk_detection ''static'' ''nodejs'' None)) \<and>
   (readable_requirements flask_project \<and> early_rule flask_project \<and>
    detect_project_type flask_project = Inr (mk_detection ''service'' ''python'' None)) \<and>
   (readable_requirements broken_package_site \<and> \<not> early_rule broken_package_site \<and>
    detect_project_type broken_package_site = Inl (JSONDecodeError unquoted_name_message))"
proof -
  have q: "readable_requirements vite_project"
    by (simp add: readable_requirements_def vite_project_fields)
  have r: "readable_package vite_project"
    by (simp add: readable_package_def well_formed_package_def vite_project_fields
        field_is_obj_def is_obj_def)
  have k: "dependency_names vite_project = {''vite''}" "has_build_script vite_project"
    by (simp_all add: vite_project_fields dependency_names_def has_build_script_def
        obj_keys_def pkg_doc_def)
  have "detection_rules vite_project = mk_detection ''static'' ''nodejs'' None"
    by (simp add: detection_rules_def k vite_project_fields mk_detection_def)
  with q r detect_project_type_rules[of vite_project]
  have one: "detect_project_type vite_project = Inr (mk_detection ''static'' ''nodejs'' None)"
    by simp
  have q': "readable_requirements broken_package_site"
    by (simp add: readable_requirements_def broken_package_site_fields)
  have e': "\<not> early_rule broken_package_site"
    by (simp add: early_rule_def broken_package_site_fields)
  from q' e' broken_package_site_fields
    detect_project_type_rules[of broken_package_site "''{ name: app }''" unquoted_name_message]
  have two: "detect_project_type broken_package_site = Inl (JSONDecodeError unquoted_name_message)"
    by simp
  from flask_project_facts detect_project_type_rules[of flask_project]
  have three: "detect_project_type flask_project = Inr (mk_detection ''service'' ''python'' None)"
    by simp
  from q r one q' e' two three flask_project_facts(1,2) show ?thesis by simp
qed

text \<open>
  C8 as stated fails: a project whose only marker file is a \<^verbatim>\<open>package.json\<close> that
  is not valid JSON matches none of the rules, so the stated fallback is
  static/static, but \<^verbatim>\<open>json.loads\<close> raises and the detection returns nothing.
\<close>

theorem detect_project_type_malformed_package_counterexample:
  "detect_project_type broken_package_project = Inl (JSONDecodeError unquoted_name_message) \<and>
   detection_rules broken_package_project = mk_detection ''static'' ''static'' None"
proof -
  have f: "files broken_package_project = [''package.json'']"
    "package_json broken_package_project = Inr (Other_text ''{ name: app'' unquoted_name_message)"
    by (simp_all add: broken_package_project_def)
  have a: "detect_project_type broken_package_project = Inl (JSONDecodeError unquoted_name_message)"
    by (simp add: detect_project_type_def f detect_package_json_def json_loads_def bind_def)
  have k: "dependency_names broken_package_project = {}" "\<not> has_build_script broken_package_project"
    by (simp_all add: dependency_names_def has_build_script_def obj_keys_def pkg_doc_def f)
  have b: "detection_rules broken_package_project = mk_detection ''static'' ''static'' None"
    by (simp add: detection_rules_def f k)
  from a b show ?thesis by simp
qed

section \<open>Results: container resource limits\<close>

text \<open>
  C9. Only the web-service path passes a memory limit and a CPU quota to the engine
  (512m by default); the static-site, dev-mode and Java paths start their containers
  with neither.
\<close>

theorem run_kwargs_resource_limits:
  "rk_mem_limit (web_service_run_kwargs Map.empty quota_of dep_id port runtime env_vars volumes)
     = Some ''512m'' \<and>
   rk_cpu_quota (web_service_run_kwargs Map.empty quota_of dep_id port runtime env_vars volumes)
     = Some (quota_of ''0.5'') \<and>
   rk_mem_limit (static_site_run_kwargs dep_id volumes) = None \<and>
   rk_cpu_quota (static_site_run_kwargs dep_id volumes) = None \<and>
   rk_mem_limit (nodejs_dev_run_kwargs dep_id port) = None \<and>
   rk_cpu_quota (nodejs_dev_run_kwargs dep_id port) = None \<and>
   rk_mem_limit (java_service_run_kwargs dep_id port) = None \<and>
   rk_cpu_quota (java_service_run_kwargs dep_id port) = None"
  by (simp add: web_service_run_kwargs_def static_site_run_kwargs_def
      nodejs_dev_run_kwargs_def java_service_run_kwargs_def getenv_def)

section \<open>Results: rate limiting\<close>

lemma header_set_header: "map_of (set_header hs k v) k' = (if k' = k then Some v else map_of hs k')"
  by (induction hs k v rule: set_header.induct) auto

lemma header_exceeded: "header (rate_limit_exceeded t) name = (if name = ''Content-Type'' then Some ''application/json'' else None)"
  by (simp add: header_def rate_limit_exceeded_def jsonify_def)

lemma quotas:
  "limits_of ''deploy'' = (10, 3600)" "limits_of ''upload'' = (5, 3600)" "limits_of ''api'' = (100, 60)"
  by (simp_all add: limits_of_def default_limits_def)

text \<open>
  C6 (amended). The quotas are deploy 10 per 3600 s, upload 5 per 3600 s and api 100
  per 60 s. For every client address and limit type: when the requests of the key
  that are still inside the window already number the quota or more, the response
  is the 429 reply, which carries neither \<^verbatim>\<open>X-RateLimit-Remaining\<close> nor
  \<^verbatim>\<open>X-RateLimit-Limit\<close>, and the request is not recorded; otherwise the request is
  recorded and the response has the status of the view's response and carries the
  remaining quota in \<^verbatim>\<open>X-RateLimit-Remaining\<close>.
\<close>

theorem rate_limit_quota:
  assumes lim: "limits_of limit_type = (max_requests, window)"
    and key: "key = client_key limit_type remote_addr"
    and cl: "cleaned = clean_old now window (requests key)"
    and res: "rate_limit limit_type view requests now remote_addr = (res, requests')"
  shows "limits_of ''deploy'' = (10, 3600) \<and> limits_of ''upload'' = (5, 3600) \<and>
         limits_of ''api'' = (100, 60) \<and>
         (if length cleaned \<ge> max_requests
          then res = rate_limit_exceeded limit_type \<and> http_status res = 429 \<and>
               header res ''X-RateLimit-Remaining'' = None \<and>
               header res ''X-RateLimit-Limit'' = None \<and>
               requests' = requests(key := cleaned)
          else http_status res = http_status view \<and>
               header res ''X-RateLimit-Remaining'' =
                 Some (str_int (int max_requests - int (length cleaned) - 1)) \<and>
               requests' = requests(key := cleaned @ [now]))"
proof (cases "length cleaned \<ge> max_requests")
  case True
  have a: "is_allowed requests now key limit_type = ((False, 0), requests(key := cleaned))"
    using True by (simp add: is_allowed_def lim cl Let_def)
  have "rate_limit limit_type view requests now remote_addr
        = (rate_limit_exceeded limit_type, requests(key := cleaned))"
    by (simp add: rate_limit_def key[symmetric] a Let_def)
  with res have r: "res = rate_limit_exceeded limit_type" "requests' = requests(key := cleaned)"
    by simp_all
  have "http_status res = 429" by (simp add: r rate_limit_exceeded_def)
  with True r show ?thesis by (simp add: quotas header_exceeded)
next
  case False
  let ?rem = "int max_requests - int (length cleaned) - 1"
  have a: "is_allowed requests now key limit_type
           = ((True, ?rem), requests(key := cleaned @ [now]))"
    using False by (simp add: is_allowed_def lim cl Let_def)
  have "rate_limit limit_type view requests now remote_addr
        = ((case view of
              With_status r code \<Rightarrow> With_status (add_rate_limit_headers limit_type ?rem r) code
            | Plain r \<Rightarrow> Plain (add_rate_limit_headers limit_type ?rem r)),
           requests(key := cleaned @ [now]))"
    by (simp add: rate_limit_def key[symmetric] a Let_def split: view_result.splits)
  with res have r: "res = (case view of
              With_status r code \<Rightarrow> With_status (add_rate_limit_headers limit_type ?rem r) code
            | Plain r \<Rightarrow> Plain (add_rate_limit_headers limit_type ?rem r))"
     "requests' = requests(key := cleaned @ [now])"
    by simp_all
  have s: "http_status res = http_status view"
    by (cases view) (simp_all add: r add_rate_limit_headers_def)
  have h: "header res ''X-RateLimit-Remaining'' = Some (str_int ?rem)"
    by (cases view) (simp_all add: r header_def add_rate_limit_headers_def header_set_header)
  from False s h r(2) show ?thesis by (simp add: quotas)
qed

lemma five_uploads_cleaned:
  "clean_old 600 3600 (five_uploads ''upload:10.0.0.7'') = [100, 200, 300, 400, 500]"
  by (simp add: clean_old_def five_uploads_def)

theorem rate_limit_quota_witness:
  "fst (rate_limit ''upload'' (Plain (jsonify JNull)) five_uploads 600 (Some ''10.0.0.7''))
     = rate_limit_exceeded ''upload'' \<and>
   http_status (fst (rate_limit ''upload'' (Plain (jsonify JNull)) five_uploads 600 (Some ''10.0.0.7''))) = 429"
proof -
  obtain res requests' where
    r: "rate_limit ''upload'' (Plain (jsonify JNull)) five_uploads 600 (Some ''10.0.0.7'') = (res, requests')"
    by (cases "rate_limit ''upload'' (Plain (jsonify JNull)) five_uploads 600 (Some ''10.0.0.7'')")
  have k: "client_key ''upload'' (Some ''10.0.0.7'') = ''upload:10.0.0.7''"
    by (simp add: client_key_def)
  from rate_limit_quota[OF quotas(2) k[symmetric] five_uploads_cleaned[symmetric] r]
  show ?thesis by (simp add: r rate_limit_exceeded_def)
qed

text \<open>
  C6 as stated fails: the sixth upload of a client within the hour is answered with
  status 429, and that response has no remaining-quota header.
\<close>

theorem over_limit_response_without_quota_headers_counterexample:
  "http_status (fst (rate_limit ''upload'' (Plain (jsonify JNull)) five_uploads 600 (Some ''10.0.0.7''))) = 429 \<and>
   header (fst (rate_limit ''upload'' (Plain (jsonify JNull)) five_uploads 600 (Some ''10.0.0.7'')))
     ''X-RateLimit-Remaining'' = None"
  by (simp add: rate_limit_def client_key_def is_allowed_def quotas five_uploads_cleaned
      rate_limit_exceeded_def header_def jsonify_def Let_def)

section \<open>Results: the deployment store\<close>

lemma try_except_total: "(\<And>e. \<not> isl (h e)) \<Longrightarrow> \<not> isl (try_except b h)"
  by (cases b) (simp_all add: try_except_def)

lemma try_except_raised: "b = Inl e \<Longrightarrow> try_except b h = h e"
  by (simp add: try_except_def)

lemma faulty_connection: "db_fault db = Some m \<Longrightarrow> get_connection db = Inl (DatabaseError m)"
  by (simp add: get_connection_def)

lemma bind_raised: "bind (Inl e) f = Inl e"
  by (simp add: bind_def)

lemma save_metrics_body_faulty:
  "db_fault db = Some m \<Longrightarrow> \<exists>e. save_metrics_body db i stats now = Inl e"
  by (cases "derive_metric stats now")
     (simp_all add: save_metrics_body_def bind_def faulty_connection)

text \<open>
  C10. No operation of the store lets an exception out: whatever the database and
  the arguments, each returns a value; and when the database raises, the four writing
  operations return \<^verbatim>\<open>False\<close> and leave the tables as they were, \<^verbatim>\<open>get_deployment\<close>
  returns \<^verbatim>\<open>None\<close> and the three listing operations return the empty list.
\<close>

theorem store_operations_swallow_errors:
  "\<not> isl (save_deployment db d) \<and> \<not> isl (save_deployment_version db i v) \<and>
   \<not> isl (save_metrics db i stats now) \<and> \<not> isl (delete_deployment db i) \<and>
   \<not> isl (get_deployment db i) \<and> \<not> isl (get_all_deployments db) \<and>
   \<not> isl (get_deployment_versions db i) \<and> \<not> isl (get_metrics db i hours now) \<and>
   (db_fault db = Some m \<longrightarrow>
      save_deployment db d = Inr (False, db) \<and>
      save_deployment_version db i v = Inr (False, db) \<and>
      save_metrics db i stats now = Inr (False, db) \<and>
      delete_deployment db i = Inr (False, db) \<and>
      get_deployment db i = Inr None \<and>
      get_all_deployments db = Inr [] \<and>
      get_deployment_versions db i = Inr [] \<and>
      get_metrics db i hours now = Inr [])"
proof -
  have total: "\<not> isl (save_deployment db d)" "\<not> isl (save_deployment_version db i v)"
    "\<not> isl (save_metrics db i stats now)" "\<not> isl (delete_deployment db i)"
    "\<not> isl (get_deployment db i)" "\<not> isl (get_all_deployments db)"
    "\<not> isl (get_deployment_versions db i)" "\<not> isl (get_metrics db i hours now)"
    unfolding save_deployment_def save_deployment_version_def save_metrics_def
      delete_deployment_def get_deployment_def get_all_deployments_def
      get_deployment_versions_def get_metrics_def
    by (rule try_except_total, simp)+
  have faulty: "save_deployment db d = Inr (False, db) \<and>
      save_deployment_version db i v = Inr (False, db) \<and>
      save_metrics db i stats now = Inr (False, db) \<and>
      delete_deployment db i = Inr (False, db) \<and>
      get_deployment db i = Inr None \<and>
      get_all_deployments db = Inr [] \<and>
      get_deployment_versions db i = Inr [] \<and>
      get_metrics db i hours now = Inr []" if f: "db_fault db = Some m"
  proof -
    note c = faulty_connection[OF f]
    obtain e where sm: "save_metrics_body db i stats now = Inl e"
      using save_metrics_body_faulty[OF f] by blast
    have "save_metrics db i stats now = Inr (False, db)"
      by (simp add: save_metrics_def try_except_raised[OF sm])
    moreover have "save_deployment db d = Inr (False, db)"
      by (simp add: save_deployment_def save_deployment_body_def c bind_raised try_except_def)
    moreover have "save_deployment_version db i v = Inr (False, db)"
      by (simp add: save_deployment_version_def save_deployment_version_body_def c bind_raised
          try_except_def)
    moreover have "delete_deployment db i = Inr (False, db)"
      by (simp add: delete_deployment_def delete_deployment_body_def c bind_raised try_except_def)
    moreover have "get_deployment db i = Inr None"
      by (simp add: get_deployment_def get_deployment_body_def c bind_raised try_except_def)
    moreover have "get_all_deployments db = Inr []"
      by (simp add: get_all_deployments_def get_all_deployments_body_def c bind_raised
          try_except_def)
    moreover have "get_deployment_versions db i = Inr []"
      by (simp add: get_deployment_versions_def get_deployment_versions_body_def c bind_raised
          try_except_def)
    moreover have "get_metrics db i hours now = Inr []"
      by (simp add: get_metrics_def get_metrics_body_def c bind_raised try_except_def)
    ultimately show ?thesis by simp
  qed
  from total faulty show ?thesis by blast
qed


theorem store_operations_swallow_errors_witness:
  "db_fault faulty_db = Some ''database is locked'' \<and>
   save_deployment faulty_db shop = Inr (False, faulty_db) \<and>
   delete_deployment faulty_db ''a1b2c3d4'' = Inr (False, faulty_db) \<and>
   get_deployment faulty_db ''a1b2c3d4'' = Inr None \<and>
   get_deployment_versions faulty_db ''a1b2c3d4'' = Inr []"
proof -
  have f: "db_fault faulty_db = Some ''database is locked''"
    by (simp add: faulty_db_def)
  from f store_operations_swallow_errors[of faulty_db shop "''a1b2c3d4''" _ _ _ _
      "''database is locked''"]
  show ?thesis by blast
qed

section \<open>Results: streaming the Log Bus\<close>

lemma forward_logs_frames:
  "forward_logs resend xs = (concat (map (forwarded resend) (upto_done xs)), has_done xs)"
proof (induction xs)
  case Nil
  show ?case by (simp add: has_done_def)
next
  case (Cons x xs)
  show ?case
  proof (cases "is_done x")
    case (Inl e)
    then show ?thesis using Cons by (simp add: forwarded_def has_done_def)
  next
    case (Inr b)
    then show ?thesis using Cons by (cases b) (simp_all add: forwarded_def has_done_def)
  qed
qed

lemma upto_done_append:
  "\<not> has_done xs \<Longrightarrow> upto_done (xs @ ys) = xs @ upto_done ys"
  by (induction xs) (auto simp: has_done_def)

lemma upto_done_append_done:
  "has_done xs \<Longrightarrow> upto_done (xs @ ys) = upto_done xs"
  by (induction xs) (auto simp: has_done_def)

lemma has_done_append: "has_done (xs @ ys) = (has_done xs \<or> has_done ys)"
  by (auto simp: has_done_def)

lemma drop_take_split:
  "i \<le> n \<Longrightarrow> n \<le> k \<Longrightarrow> drop i (take k xs) = drop i (take n xs) @ drop n (take k xs)"
proof -
  assume a: "i \<le> n" "n \<le> k"
  have "take n (take k xs) = take n xs" using a by (simp add: min_def)
  then have "take k xs = take n xs @ drop n (take k xs)"
    using append_take_drop_id[of n "take k xs"] by simp
  then have "drop i (take k xs) = drop i (take n xs @ drop n (take k xs))" by simp
  also have "\<dots> = drop i (take n xs) @ drop (i - length (take n xs)) (drop n (take k xs))"
    by simp
  also have "drop (i - length (take n xs)) (drop n (take k xs)) = drop n (take k xs)"
  proof (cases "n \<le> length xs")
    case True
    then have "i - length (take n xs) = 0" using a by simp
    then show ?thesis by simp
  next
    case False
    then have "drop n (take k xs) = []" by simp
    then show ?thesis by simp
  qed
  finally show ?thesis .
qed

lemma polls_of_cons: "polls_of bus (n # ns) = Bus (take n bus) # polls_of bus ns"
  by (simp add: polls_of_def)

lemma last_sorted_ge: "sorted (n # ms) \<Longrightarrow> n \<le> last (n # ms)"
proof (induction ms arbitrary: n)
  case Nil
  show ?case by simp
next
  case (Cons m ms)
  then have "n \<le> m" "sorted (m # ms)" by simp_all
  with Cons.IH[of m] show ?case by simp
qed

lemma tail_logs_exact:
  assumes "\<forall>n \<in> set ns. n \<le> length bus" "sorted (idx # ns)" "idx \<le> length bus"
    and "tail_logs resend (polls_of bus ns) idx er = (fs, e)"
  shows "(e = Done \<or> e = Timeout \<or> e = Still_open) \<and>
         (e \<noteq> Timeout \<longrightarrow>
            fs = concat (map (forwarded resend)
                   (upto_done (drop idx (take (last (idx # ns)) bus)))) \<and>
            e = (if has_done (drop idx (take (last (idx # ns)) bus)) then Done else Still_open)) \<and>
         (e = Timeout \<longrightarrow>
            (\<exists>ms rest. ns = ms @ rest \<and> 2400 < er + length ms \<and>
               \<not> has_done (drop idx (take (last (idx # ms)) bus)) \<and>
               fs = concat (map (forwarded resend) (drop idx (take (last (idx # ms)) bus)))
                    @ [timeout_frame]))"
  using assms
proof (induction ns arbitrary: idx er fs e)
  case Nil
  then have "fs = []" "e = Still_open" by (simp_all add: polls_of_def)
  then show ?case by (simp add: has_done_def)
next
  case (Cons n ns)
  from Cons.prems have n: "idx \<le> n" "n \<le> length bus" and ns: "\<forall>m \<in> set ns. m \<le> length bus"
    and s1: "sorted (n # ns)" and s0: "sorted (idx # ns)"
    by auto
  let ?logs = "drop idx (take n bus)"
  let ?m = "last (n # ns)"
  have m: "last (idx # n # ns) = ?m" by simp
  have nm: "n \<le> ?m" by (rule last_sorted_ge[OF s1])
  have len: "idx + length ?logs = n" using n by simp
  have unf: "tail_logs resend (polls_of bus (n # ns)) idx er =
     (if ?logs \<noteq> [] then
        (case forward_logs resend ?logs of
           (fs, True) \<Rightarrow> (fs, Done)
         | (fs, False) \<Rightarrow>
             (case tail_logs resend (polls_of bus ns) (idx + length ?logs) 0 of
                (fs', e) \<Rightarrow> (fs @ fs', e)))
      else if er + 1 > 2400 then ([timeout_frame], Timeout)
      else tail_logs resend (polls_of bus ns) idx (er + 1))"
    by (simp only: polls_of_cons tail_logs.simps lrange_from_def poll.case sum.case)
  have step: "?logs \<noteq> [] \<Longrightarrow> \<not> has_done ?logs \<Longrightarrow>
     tail_logs resend (polls_of bus (n # ns)) idx er =
       (case tail_logs resend (polls_of bus ns) n 0 of
          (fs', e) \<Rightarrow> (concat (map (forwarded resend) (upto_done ?logs)) @ fs', e))"
    unfolding unf len forward_logs_frames by simp
  have split: "drop idx (take ?m bus) = ?logs @ drop n (take ?m bus)"
    by (rule drop_take_split[OF n(1) nm])
  show ?case
  proof (cases "?logs = []")
    case empty: True
    then have eq: "n = idx" using n by simp
    show ?thesis
    proof (cases "er + 1 > 2400")
      case True
      have "tail_logs resend (polls_of bus (n # ns)) idx er = ([timeout_frame], Timeout)"
        using empty True unf by simp
      with Cons.prems(4) have r: "fs = [timeout_frame]" "e = Timeout" by simp_all
      have "n # ns = [n] @ ns \<and> 2400 < er + length [n] \<and>
               \<not> has_done (drop idx (take (last (idx # [n])) bus)) \<and>
               fs = concat (map (forwarded resend) (drop idx (take (last (idx # [n])) bus)))
                    @ [timeout_frame]"
        using True r eq by (simp add: has_done_def)
      then have "\<exists>ms rest. n # ns = ms @ rest \<and> 2400 < er + length ms \<and>
               \<not> has_done (drop idx (take (last (idx # ms)) bus)) \<and>
               fs = concat (map (forwarded resend) (drop idx (take (last (idx # ms)) bus)))
                    @ [timeout_frame]"
        by blast
      with r show ?thesis by simp
    next
      case False
      have "tail_logs resend (polls_of bus (n # ns)) idx er
            = tail_logs resend (polls_of bus ns) idx (er + 1)"
        using empty False unf by simp
      with Cons.prems(4) have t: "tail_logs resend (polls_of bus ns) idx (er + 1) = (fs, e)"
        by simp
      note ih = Cons.IH[OF ns s0 Cons.prems(3) t]
      have l: "last (idx # n # ns) = last (idx # ns)" using eq by simp
      have c: "\<exists>ms rest. n # ns = ms @ rest \<and> 2400 < er + length ms \<and>
               \<not> has_done (drop idx (take (last (idx # ms)) bus)) \<and>
               fs = concat (map (forwarded resend) (drop idx (take (last (idx # ms)) bus)))
                    @ [timeout_frame]" if "e = Timeout"
      proof -
        from ih that obtain ms rest where
          a: "ns = ms @ rest" "2400 < er + 1 + length ms"
             "\<not> has_done (drop idx (take (last (idx # ms)) bus))"
             "fs = concat (map (forwarded resend) (drop idx (take (last (idx # ms)) bus)))
                    @ [timeout_frame]"
          by auto
        have l': "last (idx # n # ms) = last (idx # ms)" using eq by simp
        have "n # ns = (n # ms) @ rest \<and> 2400 < er + length (n # ms) \<and>
               \<not> has_done (drop idx (take (last (idx # n # ms)) bus)) \<and>
               fs = concat (map (forwarded resend) (drop idx (take (last (idx # n # ms)) bus)))
                    @ [timeout_frame]"
          unfolding l' using a by simp
        then show ?thesis by blast
      qed
      from ih c show ?thesis unfolding l by blast
    qed
  next
    case nonempty: False
    show ?thesis
    proof (cases "has_done ?logs")
      case True
      have "tail_logs resend (polls_of bus (n # ns)) idx er
            = (concat (map (forwarded resend) (upto_done ?logs)), Done)"
        using nonempty True unf by (simp add: forward_logs_frames)
      with Cons.prems(4) have r: "fs = concat (map (forwarded resend) (upto_done ?logs))" "e = Done"
        by simp_all
      have u: "upto_done (drop idx (take ?m bus)) = upto_done ?logs"
        unfolding split by (rule upto_done_append_done[OF True])
      have h: "has_done (drop idx (take ?m bus))"
        unfolding split has_done_append using True by simp
      show ?thesis unfolding m using r u h by simp
    next
      case False
      obtain fs' e' where t: "tail_logs resend (polls_of bus ns) n 0 = (fs', e')"
        by (cases "tail_logs resend (polls_of bus ns) n 0")
      from step[OF nonempty False] t Cons.prems(4)
      have r: "fs = concat (map (forwarded resend) (upto_done ?logs)) @ fs'" "e = e'"
        by simp_all
      have ul: "upto_done ?logs = ?logs"
        using upto_done_append[OF False, of "[]"] by simp
      note ih = Cons.IH[OF ns s1 n(2) t]
      have u: "upto_done (drop idx (take ?m bus)) = ?logs @ upto_done (drop n (take ?m bus))"
        unfolding split by (rule upto_done_append[OF False])
      have h: "has_done (drop idx (take ?m bus)) = has_done (drop n (take ?m bus))"
        unfolding split has_done_append using False by simp
      have b: "fs = concat (map (forwarded resend) (upto_done (drop idx (take ?m bus)))) \<and>
            e = (if has_done (drop idx (take ?m bus)) then Done else Still_open)"
        if "e \<noteq> Timeout"
        using ih that r unfolding u h ul by simp
      have c: "\<exists>ms rest. n # ns = ms @ rest \<and> 2400 < er + length ms \<and>
               \<not> has_done (drop idx (take (last (idx # ms)) bus)) \<and>
               fs = concat (map (forwarded resend) (drop idx (take (last (idx # ms)) bus)))
                    @ [timeout_frame]" if "e = Timeout"
      proof -
        from ih that r obtain ms rest where
          a: "ns = ms @ rest" "2400 < length ms"
             "\<not> has_done (drop n (take (last (n # ms)) bus))"
             "fs' = concat (map (forwarded resend) (drop n (take (last (n # ms)) bus)))
                    @ [timeout_frame]"
          by auto
        let ?k = "last (n # ms)"
        have "sorted (n # ms)" using s1 a(1) by (simp add: sorted_append)
        then have nk: "n \<le> ?k" by (rule last_sorted_ge)
        have sp: "drop idx (take ?k bus) = ?logs @ drop n (take ?k bus)"
          by (rule drop_take_split[OF n(1) nk])
        have l': "last (idx # n # ms) = ?k" by simp
        have "n # ns = (n # ms) @ rest \<and> 2400 < er + length (n # ms) \<and>
               \<not> has_done (drop idx (take (last (idx # n # ms)) bus)) \<and>
               fs = concat (map (forwarded resend) (drop idx (take (last (idx # n # ms)) bus)))
                    @ [timeout_frame]"
          unfolding l' sp has_done_append using a False r ul by simp
        then show ?thesis by blast
      qed
      from ih r have a: "e = Done \<or> e = Timeout \<or> e = Still_open" by simp
      from a b c show ?thesis unfolding m by blast
    qed
  qed
qed

lemma empty_polls_skip:
  "drop idx xs = [] \<Longrightarrow> er + n \<le> 2400 \<Longrightarrow>
   tail_logs resend (replicate n (Bus xs) @ rest) idx er = tail_logs resend rest idx (er + n)"
  by (induction n arbitrary: er) (simp_all add: lrange_from_def)

lemma empty_polls_timeout:
  assumes "drop idx xs = []"
  shows "tail_logs resend (replicate 2401 (Bus xs) @ rest) idx 0 = ([timeout_frame], Timeout)"
proof -
  have n: "(2401::nat) = Suc 2400" by simp
  have "replicate (Suc 2400) (Bus xs) @ rest = replicate 2400 (Bus xs) @ (Bus xs # rest)"
    by (simp only: replicate_Suc append_Cons replicate_app_Cons_same)
  then have "tail_logs resend (replicate (Suc 2400) (Bus xs) @ rest) idx 0
             = tail_logs resend (Bus xs # rest) idx 2400"
    using empty_polls_skip[OF assms, of 0 2400 resend "Bus xs # rest"] by simp
  also have "\<dots> = ([timeout_frame], Timeout)"
    using assms by (simp add: lrange_from_def)
  finally show ?thesis unfolding n .
qed

lemma deploy_stream_state_polls:
  "snd (deploy_stream db eng r data dep_id now clone polls)
   = snd (deploy_stream db eng r data dep_id now clone [])"
proof -
  obtain fs e where t: "tail_logs False polls 0 0 = (fs, e)"
    by (cases "tail_logs False polls 0 0")
  show ?thesis
    unfolding deploy_stream_def Let_def t
    by (cases e) (simp_all split: sum.splits option.splits prod.splits)
qed

lemma forwarded_once: "concat (map (forwarded False) xs) = map Data xs"
  by (induction xs) (simp_all add: forwarded_def)

lemma forwarded_readable:
  "readable_records xs \<Longrightarrow> concat (map (forwarded resend) xs) = map Data xs"
  by (induction xs) (simp_all add: forwarded_def readable_records_def)

lemma readable_records_sub:
  "readable_records bus \<Longrightarrow> set xs \<subseteq> set bus \<Longrightarrow> readable_records xs"
  by (auto simp: readable_records_def)

lemma set_upto_done: "set (upto_done xs) \<subseteq> set xs"
  by (induction xs) auto

lemma tail_logs_forwarding:
  assumes b: "\<forall>n \<in> set ns. n \<le> length bus" and s: "sorted ns"
    and r: "resend \<longrightarrow> readable_records bus"
    and t: "tail_logs resend (polls_of bus ns) 0 0 = (fs, e)"
  shows "(e = Done \<or> e = Timeout \<or> e = Still_open) \<and>
         (e \<noteq> Timeout \<longrightarrow>
            fs = map Data (upto_done (seen_by bus ns)) \<and>
            e = (if has_done (seen_by bus ns) then Done else Still_open)) \<and>
         (e = Timeout \<longrightarrow>
            (\<exists>ms rest. ns = ms @ rest \<and> 2400 < length ms \<and> \<not> has_done (seen_by bus ms) \<and>
               fs = map Data (seen_by bus ms) @ [timeout_frame]))"
proof -
  have s0: "sorted (0 # ns)" using s by simp
  have f: "concat (map (forwarded resend) xs) = map Data xs" if "set xs \<subseteq> set bus" for xs
  proof (cases resend)
    case True
    with r have "readable_records bus" by simp
    from readable_records_sub[OF this that] show ?thesis by (rule forwarded_readable)
  next
    case False
    then show ?thesis by (simp add: forwarded_once)
  qed
  have sub1: "set (upto_done (take k bus)) \<subseteq> set bus" for k
    using set_upto_done[of "take k bus"] set_take_subset[of k bus] by (rule subset_trans)
  have f1: "concat (map (forwarded resend) (upto_done (take k bus))) = map Data (upto_done (take k bus))" for k
    by (rule f[OF sub1])
  have f2: "concat (map (forwarded resend) (take k bus)) = map Data (take k bus)" for k
    by (rule f[OF set_take_subset])
  have z: "(0::nat) \<le> length bus" by simp
  note ex = tail_logs_exact[OF b s0 z t]
  show ?thesis
    using ex unfolding drop_0 f1 f2 seen_by_def add_0 .
qed

text \<open>
  C7 (amended). Take a consumer whose polls see growing prefixes of the Log Bus. As
  long as it has not timed out, it has received, in append order and once each, the
  records its last poll saw, up to and including the first record of type \<^verbatim>\<open>done\<close>,
  and it has closed the stream exactly when there is such a record. When it has timed
  out, it has made more than 2400 polls and has received the records seen by the polls
  it made, none of type \<^verbatim>\<open>done\<close>, followed by the timeout frame. For
  \<^verbatim>\<open>stream_logs_endpoint\<close>, which sends the attach frame first, this is stated for
  lists whose records can all be read as JSON objects; for the loop of
  \<^verbatim>\<open>deploy_stream\<close>, for all lists. The timeout frame is sent, and the stream closed,
  at the 2401st consecutive poll that finds nothing new (after 2400 sleeps of 0.5 s);
  2400 such polls do not end the stream. Tailing changes nothing on the server: the
  store, the engine and the queue after \<^verbatim>\<open>deploy_stream\<close> do not depend on the polls.
\<close>

theorem log_stream_contract:
  assumes "\<forall>n \<in> set ns. n \<le> length bus" and "sorted ns"
    and "stream_logs_endpoint deployment_id (polls_of bus ns) = (fs, e)"
    and "tail_logs False (polls_of bus ns) 0 0 = (fs', e')"
  shows "(readable_records bus \<longrightarrow>
            (e \<noteq> Timeout \<longrightarrow>
               fs = info_frame (''Attached to log stream for '' @ deployment_id) #
                    map Data (upto_done (seen_by bus ns)) \<and>
               e = (if has_done (seen_by bus ns) then Done else Still_open)) \<and>
            (e = Timeout \<longrightarrow>
               (\<exists>ms rest. ns = ms @ rest \<and> 2400 < length ms \<and> \<not> has_done (seen_by bus ms) \<and>
                  fs = info_frame (''Attached to log stream for '' @ deployment_id) #
                       map Data (seen_by bus ms) @ [timeout_frame]))) \<and>
         (e' \<noteq> Timeout \<longrightarrow>
            fs' = map Data (upto_done (seen_by bus ns)) \<and>
            e' = (if has_done (seen_by bus ns) then Done else Still_open)) \<and>
         (e' = Timeout \<longrightarrow>
            (\<exists>ms rest. ns = ms @ rest \<and> 2400 < length ms \<and> \<not> has_done (seen_by bus ms) \<and>
               fs' = map Data (seen_by bus ms) @ [timeout_frame])) \<and>
         tail_logs resend (replicate 2401 (Bus (take idx bus)) @ rest') idx 0
           = ([timeout_frame], Timeout) \<and>
         tail_logs resend (replicate 2400 (Bus (take idx bus)) @ rest') idx 0
           = tail_logs resend rest' idx 2400 \<and>
         snd (deploy_stream db eng r data dep_id now clone polls)
           = snd (deploy_stream db eng r data dep_id now clone [])"
proof -
  have a: "(e \<noteq> Timeout \<longrightarrow>
               fs = info_frame (''Attached to log stream for '' @ deployment_id) #
                    map Data (upto_done (seen_by bus ns)) \<and>
               e = (if has_done (seen_by bus ns) then Done else Still_open)) \<and>
            (e = Timeout \<longrightarrow>
               (\<exists>ms rest. ns = ms @ rest \<and> 2400 < length ms \<and> \<not> has_done (seen_by bus ms) \<and>
                  fs = info_frame (''Attached to log stream for '' @ deployment_id) #
                       map Data (seen_by bus ms) @ [timeout_frame]))"
    if rd: "readable_records bus"
  proof -
    obtain gs where t: "tail_logs True (polls_of bus ns) 0 0 = (gs, e)"
      and fs: "fs = info_frame (''Attached to log stream for '' @ deployment_id) # gs"
      using assms(3) unfolding stream_logs_endpoint_def
      by (cases "tail_logs True (polls_of bus ns) 0 0") auto
    have r: "True \<longrightarrow> readable_records bus" using rd by simp
    from tail_logs_forwarding[OF assms(1,2) r t] show ?thesis
      unfolding fs by simp
  qed
  have r: "False \<longrightarrow> readable_records bus" by simp
  note b = tail_logs_forwarding[OF assms(1,2) r assms(4)]
  have d: "drop idx (take idx bus) = []" by simp
  have c1: "tail_logs resend (replicate 2401 (Bus (take idx bus)) @ rest') idx 0
           = ([timeout_frame], Timeout)"
    by (rule empty_polls_timeout[OF d])
  have c2: "tail_logs resend (replicate 2400 (Bus (take idx bus)) @ rest') idx 0
           = tail_logs resend rest' idx 2400"
    using empty_polls_skip[OF d, of 0 2400 resend rest'] by simp
  from a b c1 c2 deploy_stream_state_polls[of db eng r data dep_id now clone polls]
  show ?thesis by blast
qed

lemma is_done_done_record: "is_done done_record = Inr True"
  by (simp add: is_done_def done_record_def json_dumps_def json_loads_def bind_def
      failure_payload_def py_get_def)

lemma clean_log_facts:
  "readable_records clean_log"
  "has_done clean_log"
  "upto_done clean_log = take 3 clean_log"
  "has_done build_log"
  "upto_done build_log = take 3 build_log"
  by code_simp+

lemma four_polls:
  "sorted [0, 1, 1, (4::nat)]"
  "\<forall>n \<in> set [0, 1, 1, 4]. n \<le> length clean_log"
  "\<forall>n \<in> set [0, 1, 1, 4]. n \<le> length build_log"
  "seen_by clean_log [0, 1, 1, 4] = clean_log"
  "seen_by build_log [0, 1, 1, 4] = build_log"
  by (simp_all add: clean_log_def build_log_def seen_by_def)

lemma four_polls_no_timeout:
  "[0, 1, 1, (4::nat)] = ms @ rest \<Longrightarrow> \<not> 2400 < length ms"
proof
  assume m: "[0, 1, 1, (4::nat)] = ms @ rest" "2400 < length ms"
  from m(1) have "length [0, 1, 1, (4::nat)] = length ms + length rest"
    by (metis length_append)
  with m(2) show False by simp
qed

theorem log_stream_contract_witness:
  "readable_records clean_log \<and>
   stream_logs_endpoint ''a1b2c3d4'' (polls_of clean_log [0, 1, 1, 4]) =
     (info_frame (''Attached to log stream for '' @ ''a1b2c3d4'') # map Data (take 3 clean_log),
      Done) \<and>
   tail_logs False (polls_of build_log [0, 1, 1, 4]) 0 0 = (map Data (take 3 build_log), Done)"
proof -
  obtain fs e where s: "stream_logs_endpoint ''a1b2c3d4'' (polls_of clean_log [0, 1, 1, 4]) = (fs, e)"
    by (cases "stream_logs_endpoint ''a1b2c3d4'' (polls_of clean_log [0, 1, 1, 4])")
  obtain gs g where t: "tail_logs False (polls_of clean_log [0, 1, 1, 4]) 0 0 = (gs, g)"
    by (cases "tail_logs False (polls_of clean_log [0, 1, 1, 4]) 0 0")
  obtain fs2 e2 where s2: "stream_logs_endpoint ''a1b2c3d4'' (polls_of build_log [0, 1, 1, 4]) = (fs2, e2)"
    by (cases "stream_logs_endpoint ''a1b2c3d4'' (polls_of build_log [0, 1, 1, 4])")
  obtain fs' e' where t2: "tail_logs False (polls_of build_log [0, 1, 1, 4]) 0 0 = (fs', e')"
    by (cases "tail_logs False (polls_of build_log [0, 1, 1, 4]) 0 0")
  note one = log_stream_contract[OF four_polls(2) four_polls(1) s t, THEN conjunct1, THEN mp,
      OF clean_log_facts(1)]
  note two = log_stream_contract[OF four_polls(3) four_polls(1) s2 t2, THEN conjunct2]
  have ne: "e \<noteq> Timeout"
  proof
    assume "e = Timeout"
    with one obtain ms rest where "[0, 1, 1, (4::nat)] = ms @ rest" "2400 < length ms"
      by blast
    with four_polls_no_timeout show False by blast
  qed
  with one
  have a: "fs = info_frame (''Attached to log stream for '' @ ''a1b2c3d4'') #
                map Data (upto_done (seen_by clean_log [0, 1, 1, 4]))"
      "e = (if has_done (seen_by clean_log [0, 1, 1, 4]) then Done else Still_open)"
    by blast+
  have ne': "e' \<noteq> Timeout"
  proof
    assume "e' = Timeout"
    with two[THEN conjunct2, THEN conjunct1]
    obtain ms rest where "[0, 1, 1, (4::nat)] = ms @ rest" "2400 < length ms"
      by blast
    with four_polls_no_timeout show False by blast
  qed
  with two[THEN conjunct1]
  have b: "fs' = map Data (upto_done (seen_by build_log [0, 1, 1, 4]))"
      "e' = (if has_done (seen_by build_log [0, 1, 1, 4]) then Done else Still_open)"
    by blast+
  show ?thesis
    unfolding s t2 a b four_polls(4,5) clean_log_facts(3,5)
    using clean_log_facts(1,2,4) by simp
qed

text \<open>
  C7 as stated fails: after 2400 consecutive empty polls the consumer has sent no
  timeout frame and is still listening; a \<^verbatim>\<open>done\<close> record found by the next poll is
  forwarded and ends the stream normally.
\<close>

theorem no_timeout_after_2400_empty_polls_counterexample:
  "stream_logs_endpoint ''a1b2c3d4'' (replicate 2400 (Bus []) @ [Bus [done_record]])
   = ([info_frame (''Attached to log stream for '' @ ''a1b2c3d4''), Data done_record], Done)"
proof -
  have d: "drop 0 ([]::jtext list) = []" by simp
  have le: "(0::nat) + 2400 \<le> 2400" by simp
  have "tail_logs True (replicate 2400 (Bus []) @ [Bus [done_record]]) 0 0
        = tail_logs True [Bus [done_record]] 0 (0 + 2400)"
    by (rule empty_polls_skip[OF d le])
  also have "\<dots> = ([Data done_record], Done)"
    by (simp add: lrange_from_def is_done_done_record)
  finally show ?thesis unfolding stream_logs_endpoint_def by (simp only: prod.case)
qed

section \<open>Results: reading back what was stored\<close>







lemma d_id_conflict_update [simp]: "d_id (conflict_update new old) = d_id old"
  by (simp add: conflict_update_def)

lemma d_id_stored_columns [simp]: "d_id (stored_columns d) = d_id d"
  by (simp add: stored_columns_def)








section \<open>Results: version history\<close>






section \<open>Results: rollback\<close>










section \<open>Results: the deployment executor\<close>

lemma redis_up_append_log [simp]: "redis_up (append_log r k es) = redis_up r"
  by (simp add: append_log_def)
















section \<open>Results: status at submit time and in the worker\<close>




















end
